theory Spec2Isabelle
  imports Main "HOL-Library.Word"
begin

unbundle bit_operations_syntax

section \<open>The W25Q64 driver: data model\<close>

text \<open>
  The driver of \<^verbatim>\<open>W25Q64.hpp\<close> / \<^verbatim>\<open>W25Q64.cpp\<close> talks to a serial flash chip through
  the Arduino primitives \<^verbatim>\<open>pinMode\<close>, \<^verbatim>\<open>digitalWrite\<close>, \<^verbatim>\<open>SPI.begin\<close>,
  \<^verbatim>\<open>SPI.beginTransaction\<close>, \<^verbatim>\<open>SPI.transfer\<close> and \<^verbatim>\<open>SPI.endTransaction\<close>. These
  primitives are external; every call of one of them is recorded, in program order, as an
  event of the bus trace. The byte that \<^verbatim>\<open>SPI.transfer\<close> returns is chosen by the
  attached device, an arbitrary function of everything that happened on the bus so far and
  of the byte being sent.
\<close>

type_synonym byte = "8 word"

datatype W25Q64_status_t =
    W25Q64_OK
  | W25Q64_BUSY
  | W25Q64_UNKOWN_MANUFACTURER_ID
  | W25Q64_UNKOWN_DEVICE_ID

datatype pin_level = LOW | HIGH

datatype pin_mode = INPUT | OUTPUT

datatype bit_order = LSBFIRST | MSBFIRST

datatype spi_mode = SPI_MODE_0 | SPI_MODE_1 | SPI_MODE_2 | SPI_MODE_3

record SPISettings =
  clock :: nat
  bitOrder :: bit_order
  dataMode :: spi_mode

datatype bus_event =
    PinMode int pin_mode
  | DigitalWrite int pin_level
  | SpiBegin
  | BeginTransaction SPISettings
  | Transfer byte byte
  | EndTransaction

text \<open>
  \<open>Transfer out inp\<close> is one call \<^verbatim>\<open>SPI.transfer(out)\<close> that returned \<open>inp\<close>.
\<close>

type_synonym device = "bus_event list \<Rightarrow> byte \<Rightarrow> byte"

text \<open>The private fields of \<^verbatim>\<open>class W25Q64\<close>.\<close>

record W25Q64 =
  spi_settings :: SPISettings
  cs_pin :: int
  status :: W25Q64_status_t

record system =
  chip :: W25Q64
  bus :: "bus_event list"

subsection \<open>Constants of the header\<close>

abbreviation (input) W25Q64_WRITE_ENABLE :: byte where "W25Q64_WRITE_ENABLE \<equiv> 0x06"
abbreviation (input) W25Q64_VOLATILE_WRITE_ENABLE :: byte where "W25Q64_VOLATILE_WRITE_ENABLE \<equiv> 0x50"
abbreviation (input) W25Q64_WRITE_DISABLE :: byte where "W25Q64_WRITE_DISABLE \<equiv> 0x04"
abbreviation (input) W25Q64_RELEASE_POWER_DOWN :: byte where "W25Q64_RELEASE_POWER_DOWN \<equiv> 0xAB"
abbreviation (input) W25Q64_MANUFACTURER_ID :: byte where "W25Q64_MANUFACTURER_ID \<equiv> 0x90"
abbreviation (input) W25Q64_JEDEC_ID :: byte where "W25Q64_JEDEC_ID \<equiv> 0x9F"
abbreviation (input) W25Q64_READ_UNIQUE_ID :: byte where "W25Q64_READ_UNIQUE_ID \<equiv> 0x4B"
abbreviation (input) W25Q64_READ_DATA :: byte where "W25Q64_READ_DATA \<equiv> 0x03"
abbreviation (input) W25Q64_FAST_READ :: byte where "W25Q64_FAST_READ \<equiv> 0x0B"
abbreviation (input) W25Q64_PAGE_PROGRAM :: byte where "W25Q64_PAGE_PROGRAM \<equiv> 0x02"
abbreviation (input) W25Q64_SECTOR_ERASE :: byte where "W25Q64_SECTOR_ERASE \<equiv> 0x20"
abbreviation (input) W25Q64_BLOCK_32_ERASE :: byte where "W25Q64_BLOCK_32_ERASE \<equiv> 0x52"
abbreviation (input) W25Q64_BLOCK_64_ERASE :: byte where "W25Q64_BLOCK_64_ERASE \<equiv> 0xD8"
abbreviation (input) W25Q64_CHIP_ERASE :: byte where "W25Q64_CHIP_ERASE \<equiv> 0xC7"
abbreviation (input) W25Q64_READ_STATUS_REGISTER_1 :: byte where "W25Q64_READ_STATUS_REGISTER_1 \<equiv> 0x05"
abbreviation (input) W25Q64_WRITE_STATUS_REGISTER_1 :: byte where "W25Q64_WRITE_STATUS_REGISTER_1 \<equiv> 0x01"
abbreviation (input) W25Q64_READ_STATUS_REGISTER_2 :: byte where "W25Q64_READ_STATUS_REGISTER_2 \<equiv> 0x35"
abbreviation (input) W25Q64_WRITE_STATUS_REGISTER_2 :: byte where "W25Q64_WRITE_STATUS_REGISTER_2 \<equiv> 0x31"
abbreviation (input) W25Q64_READ_STATUS_REGISTER_3 :: byte where "W25Q64_READ_STATUS_REGISTER_3 \<equiv> 0x15"
abbreviation (input) W25Q64_WRITE_STATUS_REGISTER_3 :: byte where "W25Q64_WRITE_STATUS_REGISTER_3 \<equiv> 0x11"
abbreviation (input) W25Q64_READ_SFDP_REGISTER :: byte where "W25Q64_READ_SFDP_REGISTER \<equiv> 0x5A"
abbreviation (input) W25Q64_ERASE_SECURITY_REGISTER :: byte where "W25Q64_ERASE_SECURITY_REGISTER \<equiv> 0x44"
abbreviation (input) W25Q64_PROGRAM_SECURITY_REGISTER :: byte where "W25Q64_PROGRAM_SECURITY_REGISTER \<equiv> 0x42"
abbreviation (input) W25Q64_READ_SECURITY_REGISTER :: byte where "W25Q64_READ_SECURITY_REGISTER \<equiv> 0x48"
abbreviation (input) W25Q64_ERASE_PROGRAM_SUSPEND :: byte where "W25Q64_ERASE_PROGRAM_SUSPEND \<equiv> 0x75"
abbreviation (input) W25Q64_ERASE_PROGRAM_RESUME :: byte where "W25Q64_ERASE_PROGRAM_RESUME \<equiv> 0x7A"
abbreviation (input) W25Q64_POWER_DOWN :: byte where "W25Q64_POWER_DOWN \<equiv> 0xB9"
abbreviation (input) W25Q64_ENABLE_RESET :: byte where "W25Q64_ENABLE_RESET \<equiv> 0x66"
abbreviation (input) W25Q64_RESET_DEVICE :: byte where "W25Q64_RESET_DEVICE \<equiv> 0x99"

definition W25Q64_SPI_SPEED :: nat where
  "W25Q64_SPI_SPEED = 50000000"

definition W25Q64_READ_DATA_SPI_SPEED :: nat where
  "W25Q64_READ_DATA_SPI_SPEED = 50000000"

abbreviation (input) W25Q64_SPI_MODE :: spi_mode where "W25Q64_SPI_MODE \<equiv> SPI_MODE_0"
abbreviation (input) W25Q64_SPI_DATA_ORDER :: bit_order where "W25Q64_SPI_DATA_ORDER \<equiv> MSBFIRST"

text \<open>
  The in-class initialiser of \<^verbatim>\<open>_spi_settings\<close>, and the settings \<^verbatim>\<open>readData\<close> builds
  for its own transaction.
\<close>

definition default_spi_settings :: SPISettings where
  "default_spi_settings =
     \<lparr>clock = W25Q64_SPI_SPEED, bitOrder = W25Q64_SPI_DATA_ORDER, dataMode = W25Q64_SPI_MODE\<rparr>"

definition read_data_spi_settings :: SPISettings where
  "read_data_spi_settings =
     \<lparr>clock = W25Q64_READ_DATA_SPI_SPEED, bitOrder = W25Q64_SPI_DATA_ORDER,
      dataMode = W25Q64_SPI_MODE\<rparr>"

subsection \<open>The Arduino primitives\<close>

definition emit :: "bus_event \<Rightarrow> system \<Rightarrow> system" where
  "emit e s = s\<lparr>bus := bus s @ [e]\<rparr>"

definition pinMode :: "int \<Rightarrow> pin_mode \<Rightarrow> system \<Rightarrow> system" where
  "pinMode pin m s = emit (PinMode pin m) s"

definition digitalWrite :: "int \<Rightarrow> pin_level \<Rightarrow> system \<Rightarrow> system" where
  "digitalWrite pin v s = emit (DigitalWrite pin v) s"

definition SPI_begin :: "system \<Rightarrow> system" where
  "SPI_begin s = emit SpiBegin s"

definition SPI_beginTransaction :: "SPISettings \<Rightarrow> system \<Rightarrow> system" where
  "SPI_beginTransaction cfg s = emit (BeginTransaction cfg) s"

definition SPI_endTransaction :: "system \<Rightarrow> system" where
  "SPI_endTransaction s = emit EndTransaction s"

definition SPI_transfer :: "device \<Rightarrow> byte \<Rightarrow> system \<Rightarrow> byte \<times> system" where
  "SPI_transfer dev out s = (let inp = dev (bus s) out in (inp, emit (Transfer out inp) s))"

text \<open>A call \<^verbatim>\<open>SPI.transfer(out);\<close> whose result is dropped.\<close>

definition send :: "device \<Rightarrow> byte \<Rightarrow> system \<Rightarrow> system" where
  "send dev out s = snd (SPI_transfer dev out s)"

section \<open>The driver\<close>

subsection \<open>Transaction scope\<close>

definition W25Q64_select :: "system \<Rightarrow> system" where
  "W25Q64_select s =
     (let s1 = digitalWrite (cs_pin (chip s)) LOW s
      in SPI_beginTransaction (spi_settings (chip s1)) s1)"

definition W25Q64_release :: "system \<Rightarrow> system" where
  "W25Q64_release s =
     (let s1 = digitalWrite (cs_pin (chip s)) HIGH s
      in SPI_endTransaction s1)"

subsection \<open>Loops shared by the addressed operations\<close>

text \<open>
  \<^verbatim>\<open>for(int i = 0; i < 3; i ++) SPI.transfer((byte)(addr >> ((2-i)*8)));\<close>
  The parameters \<^verbatim>\<open>unsigned int addr\<close> and \<^verbatim>\<open>unsigned int len\<close> are 32-bit words, the
  width of \<^verbatim>\<open>unsigned int\<close> on the 32-bit boards; the cast to \<^verbatim>\<open>byte\<close> keeps the low
  eight bits of the shifted address.
\<close>

definition send_address :: "device \<Rightarrow> 32 word \<Rightarrow> system \<Rightarrow> system" where
  "send_address dev addr s =
     fold (\<lambda>i s. send dev (ucast (drop_bit ((2 - i) * 8) addr)) s) [0..<3] s"

text \<open>
  A parameter \<^verbatim>\<open>byte* buff\<close> is modelled by the memory it points into: \<open>buff i\<close> is the
  byte at \<^verbatim>\<open>buff + i\<close>, and \<open>p\<close> is how far the pointer has been advanced.

  \<^verbatim>\<open>while(len > 0){ *buff = SPI.transfer(0); *buff ++; len --; }\<close>
\<close>

fun read_sequential ::
  "device \<Rightarrow> nat \<Rightarrow> nat \<Rightarrow> (nat \<Rightarrow> byte) \<Rightarrow> system \<Rightarrow> (nat \<Rightarrow> byte) \<times> system" where
  "read_sequential dev 0 p buff s = (buff, s)"
| "read_sequential dev (Suc len) p buff s =
     (let (r, s1) = SPI_transfer dev 0 s
      in read_sequential dev len (Suc p) (buff(p := r)) s1)"

text \<open>\<^verbatim>\<open>while(len > 0){ SPI.transfer(*buff); *buff ++; len --; }\<close>\<close>

fun write_sequential ::
  "device \<Rightarrow> nat \<Rightarrow> nat \<Rightarrow> (nat \<Rightarrow> byte) \<Rightarrow> system \<Rightarrow> system" where
  "write_sequential dev 0 p buff s = s"
| "write_sequential dev (Suc len) p buff s =
     write_sequential dev len (Suc p) buff (send dev (buff p) s)"

subsection \<open>Chip instructions without a busy check\<close>

definition writeEnable :: "device \<Rightarrow> system \<Rightarrow> W25Q64_status_t \<times> system" where
  "writeEnable dev s =
     (let s1 = W25Q64_select s;
          s2 = send dev W25Q64_WRITE_ENABLE s1;
          s3 = W25Q64_release s2
      in (W25Q64_OK, s3))"

definition volatileWriteEnable :: "device \<Rightarrow> system \<Rightarrow> W25Q64_status_t \<times> system" where
  "volatileWriteEnable dev s =
     (let s1 = W25Q64_select s;
          s2 = send dev W25Q64_VOLATILE_WRITE_ENABLE s1;
          s3 = W25Q64_release s2
      in (W25Q64_OK, s3))"

definition writeDisable :: "device \<Rightarrow> system \<Rightarrow> W25Q64_status_t \<times> system" where
  "writeDisable dev s =
     (let s1 = W25Q64_select s;
          s2 = send dev W25Q64_WRITE_DISABLE s1;
          s3 = W25Q64_release s2
      in (W25Q64_OK, s3))"

definition releasePowerDown :: "device \<Rightarrow> system \<Rightarrow> W25Q64_status_t \<times> system" where
  "releasePowerDown dev s =
     (let s1 = W25Q64_select s;
          s2 = send dev W25Q64_RELEASE_POWER_DOWN s1;
          s3 = W25Q64_release s2
      in (W25Q64_OK, s3))"

text \<open>
  The out-parameters \<^verbatim>\<open>*manufacturer_id\<close> and \<^verbatim>\<open>*device_id\<close> are returned as the second
  and third component. The local \<^verbatim>\<open>byte buff[5]\<close> is a list of five cells, each of
  which the loop overwrites before it is read.
\<close>

definition readManufacturerId ::
  "device \<Rightarrow> system \<Rightarrow> W25Q64_status_t \<times> byte \<times> byte \<times> system" where
  "readManufacturerId dev s =
     (let s1 = W25Q64_select s;
          s2 = send dev W25Q64_MANUFACTURER_ID s1;
          (buff, s3) =
             fold (\<lambda>i (buff, s). let (r, s') = SPI_transfer dev 0 s in (buff[i := r], s'))
               [0..<5] (replicate 5 0, s2);
          manufacturer_id = buff ! 3;
          device_id = buff ! 4;
          s4 = W25Q64_release s3
      in (W25Q64_OK, manufacturer_id, device_id, s4))"

definition readJedecId ::
  "device \<Rightarrow> system \<Rightarrow> W25Q64_status_t \<times> byte \<times> byte \<times> byte \<times> system" where
  "readJedecId dev s =
     (let s1 = W25Q64_select s;
          s2 = send dev W25Q64_JEDEC_ID s1;
          (manufacturer_id, s3) = SPI_transfer dev 0 s2;
          (memory_type, s4) = SPI_transfer dev 0 s3;
          (capacity, s5) = SPI_transfer dev 0 s4;
          s6 = W25Q64_release s5
      in (W25Q64_OK, manufacturer_id, memory_type, capacity, s6))"

text \<open>
  \<^verbatim>\<open>readUniqueId\<close>: four dummy transfers, then the loop
  \<^verbatim>\<open>for(int i = 0; i < 8; i ++){ *unique_id = SPI.transfer(0); *unique_id ++; }\<close>,
  which is eight rounds of the body of \<open>read_sequential\<close>. The function returns after
  this loop; it has no call of \<^verbatim>\<open>_release\<close>.
\<close>

definition readUniqueId ::
  "device \<Rightarrow> (nat \<Rightarrow> byte) \<Rightarrow> system \<Rightarrow> W25Q64_status_t \<times> (nat \<Rightarrow> byte) \<times> system" where
  "readUniqueId dev unique_id s =
     (let s1 = W25Q64_select s;
          s2 = send dev W25Q64_READ_UNIQUE_ID s1;
          s3 = fold (\<lambda>i s. send dev 0 s) [0..<4] s2;
          (unique_id', s4) = read_sequential dev 8 0 unique_id s3
      in (W25Q64_OK, unique_id', s4))"

definition readStatusRegister1 :: "device \<Rightarrow> system \<Rightarrow> W25Q64_status_t \<times> byte \<times> system" where
  "readStatusRegister1 dev s =
     (let s1 = W25Q64_select s;
          s2 = send dev W25Q64_READ_STATUS_REGISTER_1 s1;
          (reg, s3) = SPI_transfer dev 0 s2;
          s4 = W25Q64_release s3
      in (W25Q64_OK, reg, s4))"

definition readStatusRegister2 :: "device \<Rightarrow> system \<Rightarrow> W25Q64_status_t \<times> byte \<times> system" where
  "readStatusRegister2 dev s =
     (let s1 = W25Q64_select s;
          s2 = send dev W25Q64_READ_STATUS_REGISTER_2 s1;
          (reg, s3) = SPI_transfer dev 0 s2;
          s4 = W25Q64_release s3
      in (W25Q64_OK, reg, s4))"

definition readStatusRegister3 :: "device \<Rightarrow> system \<Rightarrow> W25Q64_status_t \<times> byte \<times> system" where
  "readStatusRegister3 dev s =
     (let s1 = W25Q64_select s;
          s2 = send dev W25Q64_READ_STATUS_REGISTER_3 s1;
          (reg, s3) = SPI_transfer dev 0 s2;
          s4 = W25Q64_release s3
      in (W25Q64_OK, reg, s4))"

definition eraseProgramSuspend :: "device \<Rightarrow> system \<Rightarrow> W25Q64_status_t \<times> system" where
  "eraseProgramSuspend dev s =
     (let s1 = W25Q64_select s;
          s2 = send dev W25Q64_ERASE_PROGRAM_SUSPEND s1;
          s3 = W25Q64_release s2
      in (W25Q64_OK, s3))"

definition eraseProgramResume :: "device \<Rightarrow> system \<Rightarrow> W25Q64_status_t \<times> system" where
  "eraseProgramResume dev s =
     (let s1 = W25Q64_select s;
          s2 = send dev W25Q64_ERASE_PROGRAM_RESUME s1;
          s3 = W25Q64_release s2
      in (W25Q64_OK, s3))"

definition powerDown :: "device \<Rightarrow> system \<Rightarrow> W25Q64_status_t \<times> system" where
  "powerDown dev s =
     (let s1 = W25Q64_select s;
          s2 = send dev W25Q64_POWER_DOWN s1;
          s3 = W25Q64_release s2
      in (W25Q64_OK, s3))"

definition enableReset :: "device \<Rightarrow> system \<Rightarrow> W25Q64_status_t \<times> system" where
  "enableReset dev s =
     (let s1 = W25Q64_select s;
          s2 = send dev W25Q64_ENABLE_RESET s1;
          s3 = W25Q64_release s2
      in (W25Q64_OK, s3))"

definition resetDevice :: "device \<Rightarrow> system \<Rightarrow> W25Q64_status_t \<times> system" where
  "resetDevice dev s =
     (let s1 = W25Q64_select s;
          s2 = send dev W25Q64_RESET_DEVICE s1;
          s3 = W25Q64_release s2
      in (W25Q64_OK, s3))"

subsection \<open>The busy check\<close>

definition busy :: "device \<Rightarrow> system \<Rightarrow> bool \<times> system" where
  "busy dev s =
     (let (r, status_reg_1, s1) = readStatusRegister1 dev s
      in if status_reg_1 AND 0b00000001 \<noteq> 0 then (True, s1) else (False, s1))"

subsection \<open>Operations behind the busy check\<close>

text \<open>
  The read operations return the caller's buffer as their second component. On the
  \<^verbatim>\<open>BUSY\<close> return it is the buffer they were given. \<^verbatim>\<open>unsigned int len\<close> is a 32-bit
  word; the loops count it down to zero.

  \<^verbatim>\<open>readData\<close> opens its transaction with \<^verbatim>\<open>_select\<close> and then calls
  \<^verbatim>\<open>SPI.beginTransaction\<close> a second time, with settings of its own.
\<close>

definition readData ::
  "device \<Rightarrow> 32 word \<Rightarrow> (nat \<Rightarrow> byte) \<Rightarrow> 32 word \<Rightarrow> system \<Rightarrow>
   W25Q64_status_t \<times> (nat \<Rightarrow> byte) \<times> system" where
  "readData dev addr buff len s =
     (let (b, s0) = busy dev s
      in if b then (W25Q64_BUSY, buff, s0)
         else
           (let s1 = W25Q64_select s0;
                s1' = SPI_beginTransaction read_data_spi_settings s1;
                s2 = send dev W25Q64_READ_DATA s1';
                s3 = send_address dev addr s2;
                (buff', s4) = read_sequential dev (unat len) 0 buff s3;
                s5 = W25Q64_release s4
            in (W25Q64_OK, buff', s5)))"

definition fastRead ::
  "device \<Rightarrow> 32 word \<Rightarrow> (nat \<Rightarrow> byte) \<Rightarrow> 32 word \<Rightarrow> system \<Rightarrow>
   W25Q64_status_t \<times> (nat \<Rightarrow> byte) \<times> system" where
  "fastRead dev addr buff len s =
     (let (b, s0) = busy dev s
      in if b then (W25Q64_BUSY, buff, s0)
         else
           (let s1 = W25Q64_select s0;
                s2 = send dev W25Q64_FAST_READ s1;
                s3 = send_address dev addr s2;
                s4 = send dev 0 s3;
                (buff', s5) = read_sequential dev (unat len) 0 buff s4;
                s6 = W25Q64_release s5
            in (W25Q64_OK, buff', s6)))"

definition pageProgram ::
  "device \<Rightarrow> 32 word \<Rightarrow> (nat \<Rightarrow> byte) \<Rightarrow> 32 word \<Rightarrow> system \<Rightarrow> W25Q64_status_t \<times> system" where
  "pageProgram dev addr buff len s =
     (let (b, s0) = busy dev s
      in if b then (W25Q64_BUSY, s0)
         else
           (let s1 = W25Q64_select s0;
                s2 = send dev W25Q64_PAGE_PROGRAM s1;
                s3 = send_address dev addr s2;
                s4 = write_sequential dev (unat len) 0 buff s3;
                s5 = W25Q64_release s4
            in (W25Q64_OK, s5)))"

definition sectorErase :: "device \<Rightarrow> 32 word \<Rightarrow> system \<Rightarrow> W25Q64_status_t \<times> system" where
  "sectorErase dev addr s =
     (let (b, s0) = busy dev s
      in if b then (W25Q64_BUSY, s0)
         else
           (let s1 = W25Q64_select s0;
                s2 = send dev W25Q64_SECTOR_ERASE s1;
                s3 = send_address dev addr s2;
                s4 = W25Q64_release s3
            in (W25Q64_OK, s4)))"

definition block32Erase :: "device \<Rightarrow> 32 word \<Rightarrow> system \<Rightarrow> W25Q64_status_t \<times> system" where
  "block32Erase dev addr s =
     (let (b, s0) = busy dev s
      in if b then (W25Q64_BUSY, s0)
         else
           (let s1 = W25Q64_select s0;
                s2 = send dev W25Q64_BLOCK_32_ERASE s1;
                s3 = send_address dev addr s2;
                s4 = W25Q64_release s3
            in (W25Q64_OK, s4)))"

definition block64Erase :: "device \<Rightarrow> 32 word \<Rightarrow> system \<Rightarrow> W25Q64_status_t \<times> system" where
  "block64Erase dev addr s =
     (let (b, s0) = busy dev s
      in if b then (W25Q64_BUSY, s0)
         else
           (let s1 = W25Q64_select s0;
                s2 = send dev W25Q64_BLOCK_64_ERASE s1;
                s3 = send_address dev addr s2;
                s4 = W25Q64_release s3
            in (W25Q64_OK, s4)))"

definition chipErase :: "device \<Rightarrow> system \<Rightarrow> W25Q64_status_t \<times> system" where
  "chipErase dev s =
     (let (b, s0) = busy dev s
      in if b then (W25Q64_BUSY, s0)
         else
           (let s1 = W25Q64_select s0;
                s2 = send dev W25Q64_CHIP_ERASE s1;
                s3 = W25Q64_release s2
            in (W25Q64_OK, s3)))"

definition writeStatusRegister1 :: "device \<Rightarrow> byte \<Rightarrow> system \<Rightarrow> W25Q64_status_t \<times> system" where
  "writeStatusRegister1 dev reg s =
     (let (b, s0) = busy dev s
      in if b then (W25Q64_BUSY, s0)
         else
           (let s1 = W25Q64_select s0;
                s2 = send dev W25Q64_WRITE_STATUS_REGISTER_1 s1;
                s3 = send dev reg s2;
                s4 = W25Q64_release s3
            in (W25Q64_OK, s4)))"

definition writeStatusRegister2 :: "device \<Rightarrow> byte \<Rightarrow> system \<Rightarrow> W25Q64_status_t \<times> system" where
  "writeStatusRegister2 dev reg s =
     (let (b, s0) = busy dev s
      in if b then (W25Q64_BUSY, s0)
         else
           (let s1 = W25Q64_select s0;
                s2 = send dev W25Q64_WRITE_STATUS_REGISTER_2 s1;
                s3 = send dev reg s2;
                s4 = W25Q64_release s3
            in (W25Q64_OK, s4)))"

definition writeStatusRegister3 :: "device \<Rightarrow> byte \<Rightarrow> system \<Rightarrow> W25Q64_status_t \<times> system" where
  "writeStatusRegister3 dev reg s =
     (let (b, s0) = busy dev s
      in if b then (W25Q64_BUSY, s0)
         else
           (let s1 = W25Q64_select s0;
                s2 = send dev W25Q64_WRITE_STATUS_REGISTER_3 s1;
                s3 = send dev reg s2;
                s4 = W25Q64_release s3
            in (W25Q64_OK, s4)))"

definition readSFDPRegister ::
  "device \<Rightarrow> 32 word \<Rightarrow> (nat \<Rightarrow> byte) \<Rightarrow> 32 word \<Rightarrow> system \<Rightarrow>
   W25Q64_status_t \<times> (nat \<Rightarrow> byte) \<times> system" where
  "readSFDPRegister dev addr buff len s =
     (let (b, s0) = busy dev s
      in if b then (W25Q64_BUSY, buff, s0)
         else
           (let s1 = W25Q64_select s0;
                s2 = send dev W25Q64_READ_SFDP_REGISTER s1;
                s3 = send_address dev addr s2;
                s4 = send dev 0 s3;
                (buff', s5) = read_sequential dev (unat len) 0 buff s4;
                s6 = W25Q64_release s5
            in (W25Q64_OK, buff', s6)))"

definition eraseSecurityRegister :: "device \<Rightarrow> 32 word \<Rightarrow> system \<Rightarrow> W25Q64_status_t \<times> system" where
  "eraseSecurityRegister dev addr s =
     (let (b, s0) = busy dev s
      in if b then (W25Q64_BUSY, s0)
         else
           (let s1 = W25Q64_select s0;
                s2 = send dev W25Q64_ERASE_SECURITY_REGISTER s1;
                s3 = send_address dev addr s2;
                s4 = W25Q64_release s3
            in (W25Q64_OK, s4)))"

definition programSecurityRegister ::
  "device \<Rightarrow> 32 word \<Rightarrow> (nat \<Rightarrow> byte) \<Rightarrow> 32 word \<Rightarrow> system \<Rightarrow> W25Q64_status_t \<times> system" where
  "programSecurityRegister dev addr buff len s =
     (let (b, s0) = busy dev s
      in if b then (W25Q64_BUSY, s0)
         else
           (let s1 = W25Q64_select s0;
                s2 = send dev W25Q64_PROGRAM_SECURITY_REGISTER s1;
                s3 = send_address dev addr s2;
                s4 = write_sequential dev (unat len) 0 buff s3;
                s5 = W25Q64_release s4
            in (W25Q64_OK, s5)))"

definition readSecurityRegister ::
  "device \<Rightarrow> 32 word \<Rightarrow> (nat \<Rightarrow> byte) \<Rightarrow> 32 word \<Rightarrow> system \<Rightarrow>
   W25Q64_status_t \<times> (nat \<Rightarrow> byte) \<times> system" where
  "readSecurityRegister dev addr buff len s =
     (let (b, s0) = busy dev s
      in if b then (W25Q64_BUSY, buff, s0)
         else
           (let s1 = W25Q64_select s0;
                s2 = send dev W25Q64_READ_SECURITY_REGISTER s1;
                s3 = send_address dev addr s2;
                s4 = send dev 0 s3;
                (buff', s5) = read_sequential dev (unat len) 0 buff s4;
                s6 = W25Q64_release s5
            in (W25Q64_OK, buff', s6)))"

subsection \<open>Reset and initialisation\<close>

definition reset :: "device \<Rightarrow> system \<Rightarrow> W25Q64_status_t \<times> system" where
  "reset dev s =
     (let (b, s0) = busy dev s
      in if b then (W25Q64_BUSY, s0)
         else
           (let (r1, s1) = enableReset dev s0;
                (r2, s2) = resetDevice dev s1
            in (W25Q64_OK, s2)))"

text \<open>
  \<^verbatim>\<open>init\<close> stores the pin, configures it, starts the SPI peripheral and reads the IDs. The
  status \<^verbatim>\<open>readManufacturerId\<close> returns is stored in \<^verbatim>\<open>_status\<close>; the IDs decide the
  result.
\<close>

definition init :: "device \<Rightarrow> int \<Rightarrow> system \<Rightarrow> W25Q64_status_t \<times> system" where
  "init dev pin s =
     (let s1 = s\<lparr>chip := (chip s)\<lparr>cs_pin := pin\<rparr>\<rparr>;
          s2 = pinMode (cs_pin (chip s1)) OUTPUT s1;
          s3 = digitalWrite (cs_pin (chip s2)) HIGH s2;
          s4 = SPI_begin s3;
          (r, manufacturer_id, device_id, s5) = readManufacturerId dev s4;
          s6 = s5\<lparr>chip := (chip s5)\<lparr>status := r\<rparr>\<rparr>
      in if manufacturer_id \<noteq> 0xEF then (W25Q64_UNKOWN_MANUFACTURER_ID, s6)
         else if device_id \<noteq> 0x16 then (W25Q64_UNKOWN_DEVICE_ID, s6)
         else (W25Q64_OK, s6))"

section \<open>Reading the bus trace\<close>

text \<open>
  The functions of this section are not part of the driver. They describe traces: the
  bytes that were sent, the events a device answers a sequence of bytes with, one
  chip-select bracket, the clock settings each byte was transferred under, and whether
  every transfer lies inside a bracket.
\<close>

primrec sent :: "bus_event list \<Rightarrow> byte list" where
  "sent [] = []"
| "sent (e # es) = (case e of Transfer out inp \<Rightarrow> out # sent es | _ \<Rightarrow> sent es)"

primrec received :: "bus_event list \<Rightarrow> byte list" where
  "received [] = []"
| "received (e # es) = (case e of Transfer out inp \<Rightarrow> inp # received es | _ \<Rightarrow> received es)"

text \<open>
  \<open>exchange dev tr outs\<close>: the transfer events of sending the bytes \<open>outs\<close>, one after
  the other, to the device \<open>dev\<close> when the trace so far is \<open>tr\<close>.
\<close>

fun exchange :: "device \<Rightarrow> bus_event list \<Rightarrow> byte list \<Rightarrow> bus_event list" where
  "exchange dev tr [] = []"
| "exchange dev tr (out # outs) =
     Transfer out (dev tr out) # exchange dev (tr @ [Transfer out (dev tr out)]) outs"

text \<open>
  \<open>transaction dev tr cs cfgs outs\<close>: chip select \<open>cs\<close> pulled low, the bus opened with
  each of the settings \<open>cfgs\<close> in turn, the bytes \<open>outs\<close> exchanged, chip select pulled
  high and the bus closed.
\<close>

definition transaction ::
  "device \<Rightarrow> bus_event list \<Rightarrow> int \<Rightarrow> SPISettings list \<Rightarrow> byte list \<Rightarrow> bus_event list" where
  "transaction dev tr cs cfgs outs =
     (DigitalWrite cs LOW # map BeginTransaction cfgs) @
     exchange dev (tr @ DigitalWrite cs LOW # map BeginTransaction cfgs) outs @
     [DigitalWrite cs HIGH, EndTransaction]"

text \<open>
  \<open>transact dev cfgs outs s\<close>: the system after one such bracket on the chip-select pin
  of the handle, opened with the handle's settings and then with each of \<open>cfgs\<close>.
\<close>

definition transact :: "device \<Rightarrow> SPISettings list \<Rightarrow> byte list \<Rightarrow> system \<Rightarrow> system" where
  "transact dev cfgs outs s =
     s\<lparr>bus := bus s @
        transaction dev (bus s) (cs_pin (chip s)) (spi_settings (chip s) # cfgs) outs\<rparr>"

text \<open>
  \<open>clocked cur es\<close>: every byte sent in \<open>es\<close>, paired with the settings of the latest
  \<^verbatim>\<open>SPI.beginTransaction\<close> before it (\<open>None\<close> outside a transaction).
\<close>

fun clocked :: "SPISettings option \<Rightarrow> bus_event list \<Rightarrow> (SPISettings option \<times> byte) list" where
  "clocked cur [] = []"
| "clocked cur (BeginTransaction cfg # es) = clocked (Some cfg) es"
| "clocked cur (EndTransaction # es) = clocked None es"
| "clocked cur (Transfer out inp # es) = (cur, out) # clocked cur es"
| "clocked cur (PinMode pin m # es) = clocked cur es"
| "clocked cur (DigitalWrite pin v # es) = clocked cur es"
| "clocked cur (SpiBegin # es) = clocked cur es"

text \<open>
  Calls of \<^verbatim>\<open>_select\<close> and \<^verbatim>\<open>_release\<close> in a trace: \<^verbatim>\<open>_select\<close> is the only code that
  writes \<open>LOW\<close> to a pin, \<^verbatim>\<open>_release\<close> the only code that calls
  \<^verbatim>\<open>SPI.endTransaction\<close>.
\<close>

fun is_select :: "bus_event \<Rightarrow> bool" where
  "is_select (DigitalWrite pin LOW) = True"
| "is_select e = False"

fun is_release :: "bus_event \<Rightarrow> bool" where
  "is_release EndTransaction = True"
| "is_release e = False"

fun is_transfer :: "bus_event \<Rightarrow> bool" where
  "is_transfer (Transfer out inp) = True"
| "is_transfer e = False"

definition select_calls :: "bus_event list \<Rightarrow> nat" where
  "select_calls es = length (filter is_select es)"

definition release_calls :: "bus_event list \<Rightarrow> nat" where
  "release_calls es = length (filter is_release es)"

text \<open>
  \<open>scoped sel es\<close> runs over \<open>es\<close> with \<open>sel\<close> telling whether the chip is selected:
  a select needs a released chip, a release and a transfer need a selected one. The
  result is the selection state at the end, or \<open>None\<close> when an event broke the rule.
\<close>

fun scoped :: "bool \<Rightarrow> bus_event list \<Rightarrow> bool option" where
  "scoped sel [] = Some sel"
| "scoped sel (DigitalWrite pin LOW # es) = (if sel then None else scoped True es)"
| "scoped sel (EndTransaction # es) = (if sel then scoped False es else None)"
| "scoped sel (Transfer out inp # es) = (if sel then scoped sel es else None)"
| "scoped sel (DigitalWrite pin HIGH # es) = scoped sel es"
| "scoped sel (BeginTransaction cfg # es) = scoped sel es"
| "scoped sel (PinMode pin m # es) = scoped sel es"
| "scoped sel (SpiBegin # es) = scoped sel es"

text \<open>
  The events before the first transfer of a trace and those after its last transfer. A
  trace is \<open>bracketed\<close> when exactly one \<^verbatim>\<open>_select\<close> comes before its first transfer,
  exactly one \<^verbatim>\<open>_release\<close> comes after its last transfer, and every transfer lies inside
  a select/release pair that is closed at the end.
\<close>

definition before_first_transfer :: "bus_event list \<Rightarrow> bus_event list" where
  "before_first_transfer es = takeWhile (\<lambda>e. \<not> is_transfer e) es"

definition after_last_transfer :: "bus_event list \<Rightarrow> bus_event list" where
  "after_last_transfer es = rev (takeWhile (\<lambda>e. \<not> is_transfer e) (rev es))"

definition bracketed :: "bus_event list \<Rightarrow> bool" where
  "bracketed es \<longleftrightarrow>
     select_calls (before_first_transfer es) = 1 \<and>
     release_calls (after_last_transfer es) = 1 \<and>
     scoped False es = Some False"

text \<open>The events a call added to the trace.\<close>

definition emitted :: "system \<Rightarrow> system \<Rightarrow> bus_event list" where
  "emitted s s' = drop (length (bus s)) (bus s')"

text \<open>
  The 24 least-significant bits of an address as three bytes, most-significant first, and
  the value of a byte sequence read as a big-endian number.
\<close>

definition address_bytes :: "32 word \<Rightarrow> byte list" where
  "address_bytes addr =
     map (\<lambda>k. ucast (drop_bit (8 * k) (take_bit 24 addr))) [2, 1, 0]"

definition big_endian :: "byte list \<Rightarrow> 32 word" where
  "big_endian bs = foldl (\<lambda>acc b. push_bit 8 acc OR ucast b) 0 bs"

subsection \<open>Concrete devices and states\<close>

text \<open>
  A device that answers every transfer with zero (never busy), one that answers every
  transfer with \<open>0x03\<close> (busy flag set), and one that answers the transfers after an
  opcode with the bytes of a script, in order.
\<close>

definition quiet_device :: device where
  "quiet_device tr out = 0"

definition busy_device :: device where
  "busy_device tr out = 0x03"

definition scripted_device :: "byte list \<Rightarrow> device" where
  "scripted_device script tr out =
     (let k = length (received tr)
      in if 0 < k \<and> k \<le> length script then script ! (k - 1) else 0)"

definition boot_system :: system where
  "boot_system =
     \<lparr>chip = \<lparr>spi_settings = default_spi_settings, cs_pin = 10, status = W25Q64_OK\<rparr>,
      bus = []\<rparr>"

definition blank_buffer :: "nat \<Rightarrow> byte" where
  "blank_buffer i = 0xFF"

definition sample_buffer :: "nat \<Rightarrow> byte" where
  "sample_buffer i = (if i = 0 then 0xAA else if i = 1 then 0xBB else 0xFF)"

section \<open>The flash chip\<close>

text \<open>
  Modelled from the spec: the flash chip at the other end of the bus, which is hardware
  and has no code in the repository. The spec gives it a byte-addressed memory, a
  write-enable latch that a program command needs and uses up, a page program command that
  takes the payload after a three-byte address and limits the page to 256 bytes starting
  at that address, a read command that returns the bytes from a three-byte address on,
  one per zero byte clocked in, and status register 1. A command is the bytes received
  between chip select going low and going high; a program takes effect when chip select
  goes high. Write enable (\<open>0x06\<close>), write disable (\<open>0x04\<close>), page program (\<open>0x02\<close>),
  read data (\<open>0x03\<close>) and read status register 1 (\<open>0x05\<close>) are modelled; every other
  command leaves the chip as it is. What status register 1 answers depends on the
  internal timing of the chip and is a parameter \<open>sr\<close> of the model.
\<close>

record flash =
  memory :: "nat \<Rightarrow> byte"
  wel :: bool
  frame :: "byte list option"

definition program_page :: "(nat \<Rightarrow> byte) \<Rightarrow> nat \<Rightarrow> byte list \<Rightarrow> nat \<Rightarrow> byte" where
  "program_page mem a payload x =
     (if a \<le> x \<and> x < a + length (take 256 payload) then take 256 payload ! (x - a)
      else mem x)"

definition flash_command :: "flash \<Rightarrow> byte list \<Rightarrow> flash" where
  "flash_command f cmd =
     (case cmd of
        [] \<Rightarrow> f
      | opcode # rest \<Rightarrow>
          if opcode = W25Q64_WRITE_ENABLE then f\<lparr>wel := True\<rparr>
          else if opcode = W25Q64_WRITE_DISABLE then f\<lparr>wel := False\<rparr>
          else if opcode = W25Q64_PAGE_PROGRAM \<and> wel f \<and> 3 \<le> length rest
          then f\<lparr>memory :=
                   program_page (memory f) (unat (big_endian (take 3 rest))) (drop 3 rest),
                 wel := False\<rparr>
          else f)"

fun flash_step :: "flash \<Rightarrow> bus_event \<Rightarrow> flash" where
  "flash_step f (DigitalWrite pin LOW) = f\<lparr>frame := Some []\<rparr>"
| "flash_step f (DigitalWrite pin HIGH) =
     (case frame f of
        None \<Rightarrow> f
      | Some cmd \<Rightarrow> (flash_command f cmd)\<lparr>frame := None\<rparr>)"
| "flash_step f (Transfer out inp) =
     f\<lparr>frame := map_option (\<lambda>cmd. cmd @ [out]) (frame f)\<rparr>"
| "flash_step f (PinMode pin m) = f"
| "flash_step f SpiBegin = f"
| "flash_step f (BeginTransaction cfg) = f"
| "flash_step f EndTransaction = f"

definition flash_state :: "(nat \<Rightarrow> byte) \<Rightarrow> bus_event list \<Rightarrow> flash" where
  "flash_state mem0 tr = foldl flash_step \<lparr>memory = mem0, wel = False, frame = None\<rparr> tr"

text \<open>
  Modelled from the spec: the answer of the chip to a transfer. Inside a read command, after the opcode and the
  three address bytes, the memory byte at the address plus the number of bytes already
  read; inside a status read, the status register; otherwise \<open>0xFF\<close>.
\<close>

definition flash_answer :: "flash \<Rightarrow> byte \<Rightarrow> byte" where
  "flash_answer f status_reg_1 =
     (case frame f of
        None \<Rightarrow> 0xFF
      | Some cmd \<Rightarrow>
          if 4 \<le> length cmd \<and> hd cmd = W25Q64_READ_DATA
          then memory f (unat (big_endian (take 3 (tl cmd))) + (length cmd - 4))
          else if 1 \<le> length cmd \<and> hd cmd = W25Q64_READ_STATUS_REGISTER_1
          then status_reg_1
          else 0xFF)"

definition ideal_flash :: "(nat \<Rightarrow> byte) \<Rightarrow> (bus_event list \<Rightarrow> byte) \<Rightarrow> device" where
  "ideal_flash mem0 sr tr out = flash_answer (flash_state mem0 tr) (sr tr)"


definition never_busy :: "bus_event list \<Rightarrow> byte" where
  "never_busy tr = 0x00"


section \<open>Lemmas about traces\<close>

lemma sent_append [simp]: "sent (xs @ ys) = sent xs @ sent ys"
  by (induction xs) (auto split: bus_event.split)

lemma received_append [simp]: "received (xs @ ys) = received xs @ received ys"
  by (induction xs) (auto split: bus_event.split)

lemma exchange_append:
  "exchange dev tr (xs @ ys) = exchange dev tr xs @ exchange dev (tr @ exchange dev tr xs) ys"
  by (induction xs arbitrary: tr) simp_all

lemma sent_exchange [simp]: "sent (exchange dev tr outs) = outs"
  by (induction outs arbitrary: tr) simp_all

lemma length_exchange [simp]: "length (exchange dev tr outs) = length outs"
  by (induction outs arbitrary: tr) simp_all

lemma length_received_exchange [simp]: "length (received (exchange dev tr outs)) = length outs"
  by (induction outs arbitrary: tr) simp_all

lemma clocked_exchange:
  "clocked cur (exchange dev tr outs @ es) = map (Pair cur) outs @ clocked cur es"
  by (induction outs arbitrary: tr) simp_all

lemma scoped_exchange: "scoped True (exchange dev tr outs @ es) = scoped True es"
  by (induction outs arbitrary: tr) simp_all

lemma scoped_append:
  "scoped sel (xs @ ys) = (case scoped sel xs of None \<Rightarrow> None | Some sel' \<Rightarrow> scoped sel' ys)"
  by (induction sel xs rule: scoped.induct) simp_all

lemma filter_select_exchange [simp]: "filter is_select (exchange dev tr outs) = []"
  by (induction outs arbitrary: tr) simp_all

lemma filter_release_exchange [simp]: "filter is_release (exchange dev tr outs) = []"
  by (induction outs arbitrary: tr) simp_all

lemma sent_transaction [simp]: "sent (transaction dev tr cs cfgs outs) = outs"
  by (simp add: transaction_def comp_def) (induction cfgs; simp)

lemma scoped_transaction: "scoped False (transaction dev tr cs cfgs outs @ es) = scoped False es"
proof -
  have "scoped sel (map BeginTransaction cfgs @ fs) = scoped sel fs" for sel fs
    by (induction cfgs) simp_all
  then show ?thesis
    by (simp add: transaction_def scoped_exchange)
qed

lemma clocked_transaction:
  "clocked cur (transaction dev tr cs (cfgs @ [cfg]) outs @ es) =
     map (Pair (Some cfg)) outs @ clocked None es"
proof -
  have "clocked c (map BeginTransaction cfgs @ fs) = clocked (if cfgs = [] then c else Some (last cfgs)) fs"
    for c fs
    by (induction cfgs arbitrary: c) simp_all
  from this [of cur "BeginTransaction cfg # _"] show ?thesis
    by (simp add: transaction_def clocked_exchange)
qed

lemma select_calls_transaction [simp]: "select_calls (transaction dev tr cs cfgs outs) = 1"
  by (simp add: select_calls_def transaction_def filter_map comp_def)

lemma release_calls_transaction [simp]: "release_calls (transaction dev tr cs cfgs outs) = 1"
  by (simp add: release_calls_def transaction_def filter_map comp_def)

lemma chip_transact [simp]: "chip (transact dev cfgs outs s) = chip s"
  by (simp add: transact_def)

lemma bus_transact:
  "bus (transact dev cfgs outs s) =
     bus s @ transaction dev (bus s) (cs_pin (chip s)) (spi_settings (chip s) # cfgs) outs"
  by (simp add: transact_def)

lemma sent_transact [simp]: "sent (bus (transact dev cfgs outs s)) = sent (bus s) @ outs"
  by (simp add: transact_def)

lemma emitted_self [simp]: "emitted s s = []"
  by (simp add: emitted_def)

lemma emitted_transact [simp]:
  "emitted s (transact dev cfgs outs s) =
     transaction dev (bus s) (cs_pin (chip s)) (spi_settings (chip s) # cfgs) outs"
  by (simp add: emitted_def transact_def)

lemma emitted_transact_after:
  "length (bus s) \<le> length (bus t) \<Longrightarrow>
   emitted s (transact dev cfgs outs t) =
     emitted s t @
     transaction dev (bus t) (cs_pin (chip t)) (spi_settings (chip t) # cfgs) outs"
  by (simp add: emitted_def transact_def)

lemma length_bus_transact [simp]:
  "length (bus (transact dev cfgs outs s)) = length (bus s) + (length cfgs + length outs + 4)"
  by (simp add: transact_def transaction_def)

lemma scoped_transaction_end:
  "scoped False (transaction dev tr cs cfgs outs) = Some False"
  using scoped_transaction [of dev tr cs cfgs outs "[]"] by simp

subsection \<open>Address bytes\<close>

lemma length_address_bytes: "length (address_bytes addr) = 3"
  by (simp add: address_bytes_def)

lemma address_bytes_code:
  "address_bytes addr = [ucast (drop_bit 16 addr), ucast (drop_bit 8 addr), ucast addr]"
proof -
  have b2: "(ucast (drop_bit 16 (take_bit 24 addr)) :: byte) = ucast (drop_bit 16 addr)"
    by (rule bit_word_eqI) (auto simp: bit_simps)
  have b1: "(ucast (drop_bit 8 (take_bit 24 addr)) :: byte) = ucast (drop_bit 8 addr)"
    by (rule bit_word_eqI) (auto simp: bit_simps)
  have b0: "(ucast (take_bit 24 addr) :: byte) = ucast addr"
    by (rule bit_word_eqI) (auto simp: bit_simps)
  show ?thesis
    by (simp add: address_bytes_def b2 b1 b0)
qed

lemma big_endian_address_bytes: "big_endian (address_bytes addr) = take_bit 24 addr"
  unfolding big_endian_def address_bytes_def
  apply simp
  apply (rule bit_word_eqI)
  subgoal for n
    using le_add_diff_inverse [of 16 n]
    by (cases "16 \<le> n") (auto simp: bit_simps)
  done

lemma address_bytes_take_bit: "address_bytes (take_bit 24 addr) = address_bytes addr"
  by (simp add: address_bytes_def)

section \<open>What each driver step adds to the trace\<close>

lemma upt3: "[0..<3] = [0, 1, 2]"
  by (simp add: upt_rec)

lemma upt5: "[0..<5] = [0, 1, 2, 3, 4]"
  by (simp add: upt_rec)

lemma select_eq:
  "W25Q64_select s =
     s\<lparr>bus := bus s @
        [DigitalWrite (cs_pin (chip s)) LOW, BeginTransaction (spi_settings (chip s))]\<rparr>"
  by (simp add: W25Q64_select_def digitalWrite_def SPI_beginTransaction_def emit_def)

lemma release_eq:
  "W25Q64_release s = s\<lparr>bus := bus s @ [DigitalWrite (cs_pin (chip s)) HIGH, EndTransaction]\<rparr>"
  by (simp add: W25Q64_release_def digitalWrite_def SPI_endTransaction_def emit_def)

lemma beginTransaction_eq:
  "SPI_beginTransaction cfg s = s\<lparr>bus := bus s @ [BeginTransaction cfg]\<rparr>"
  by (simp add: SPI_beginTransaction_def emit_def)

lemma transfer_eq:
  "SPI_transfer dev out s =
     (dev (bus s) out, s\<lparr>bus := bus s @ [Transfer out (dev (bus s) out)]\<rparr>)"
  by (simp add: SPI_transfer_def emit_def Let_def)

lemma send_eq: "send dev out s = s\<lparr>bus := bus s @ exchange dev (bus s) [out]\<rparr>"
  by (simp add: send_def transfer_eq)

lemma send_address_eq:
  "send_address dev addr s = s\<lparr>bus := bus s @ exchange dev (bus s) (address_bytes addr)\<rparr>"
  by (simp add: send_address_def address_bytes_code send_eq upt3)

lemma write_sequential_eq:
  "write_sequential dev n p buff s =
     s\<lparr>bus := bus s @ exchange dev (bus s) (map buff [p..<p + n])\<rparr>"
proof (induction n arbitrary: p s)
  case 0
  then show ?case by simp
next
  case (Suc n)
  show ?case
    by (simp add: Suc.IH send_eq upt_conv_Cons del: upt_Suc)
qed

lemma read_sequential_bus:
  "snd (read_sequential dev n p buff s) =
     s\<lparr>bus := bus s @ exchange dev (bus s) (replicate n 0)\<rparr>"
proof (induction n arbitrary: p buff s)
  case 0
  then show ?case by simp
next
  case (Suc n)
  show ?case
    by (simp add: Suc.IH transfer_eq)
qed


lemma fold_send:
  "fold (\<lambda>i s. send dev out s) xs s =
     s\<lparr>bus := bus s @ exchange dev (bus s) (replicate (length xs) out)\<rparr>"
  by (induction xs arbitrary: s) (simp_all add: send_eq)

lemmas step_eqs =
  select_eq release_eq beginTransaction_eq send_eq send_address_eq write_sequential_eq
  read_sequential_bus

lemmas frame_simps =
  Let_def case_prod_beta step_eqs transfer_eq transact_def transaction_def exchange_append

section \<open>The frame of every operation\<close>

text \<open>
  Each operation is one chip-select bracket, after the status read of the busy check where
  the operation has one. The lemmas of this section give the bytes of that bracket.
\<close>

lemma writeEnable_frame: "writeEnable dev s = (W25Q64_OK, transact dev [] [W25Q64_WRITE_ENABLE] s)"
  by (simp add: writeEnable_def frame_simps)

lemma volatileWriteEnable_frame:
  "volatileWriteEnable dev s = (W25Q64_OK, transact dev [] [W25Q64_VOLATILE_WRITE_ENABLE] s)"
  by (simp add: volatileWriteEnable_def frame_simps)

lemma writeDisable_frame:
  "writeDisable dev s = (W25Q64_OK, transact dev [] [W25Q64_WRITE_DISABLE] s)"
  by (simp add: writeDisable_def frame_simps)

lemma releasePowerDown_frame:
  "releasePowerDown dev s = (W25Q64_OK, transact dev [] [W25Q64_RELEASE_POWER_DOWN] s)"
  by (simp add: releasePowerDown_def frame_simps)

lemma eraseProgramSuspend_frame:
  "eraseProgramSuspend dev s = (W25Q64_OK, transact dev [] [W25Q64_ERASE_PROGRAM_SUSPEND] s)"
  by (simp add: eraseProgramSuspend_def frame_simps)

lemma eraseProgramResume_frame:
  "eraseProgramResume dev s = (W25Q64_OK, transact dev [] [W25Q64_ERASE_PROGRAM_RESUME] s)"
  by (simp add: eraseProgramResume_def frame_simps)

lemma powerDown_frame: "powerDown dev s = (W25Q64_OK, transact dev [] [W25Q64_POWER_DOWN] s)"
  by (simp add: powerDown_def frame_simps)

lemma enableReset_frame: "enableReset dev s = (W25Q64_OK, transact dev [] [W25Q64_ENABLE_RESET] s)"
  by (simp add: enableReset_def frame_simps)

lemma resetDevice_frame: "resetDevice dev s = (W25Q64_OK, transact dev [] [W25Q64_RESET_DEVICE] s)"
  by (simp add: resetDevice_def frame_simps)

lemma readStatusRegister1_frame:
  "fst (readStatusRegister1 dev s) = W25Q64_OK"
  "snd (snd (readStatusRegister1 dev s)) = transact dev [] [W25Q64_READ_STATUS_REGISTER_1, 0] s"
  by (simp_all add: readStatusRegister1_def frame_simps)

lemma readStatusRegister2_frame:
  "fst (readStatusRegister2 dev s) = W25Q64_OK"
  "snd (snd (readStatusRegister2 dev s)) = transact dev [] [W25Q64_READ_STATUS_REGISTER_2, 0] s"
  by (simp_all add: readStatusRegister2_def frame_simps)

lemma readStatusRegister3_frame:
  "fst (readStatusRegister3 dev s) = W25Q64_OK"
  "snd (snd (readStatusRegister3 dev s)) = transact dev [] [W25Q64_READ_STATUS_REGISTER_3, 0] s"
  by (simp_all add: readStatusRegister3_def frame_simps)

lemma readManufacturerId_frame:
  "fst (readManufacturerId dev s) = W25Q64_OK"
  "snd (snd (snd (readManufacturerId dev s))) =
     transact dev [] [W25Q64_MANUFACTURER_ID, 0, 0, 0, 0, 0] s"
  by (simp_all add: readManufacturerId_def upt5 frame_simps)

lemma readJedecId_frame:
  "fst (readJedecId dev s) = W25Q64_OK"
  "snd (snd (snd (snd (readJedecId dev s)))) = transact dev [] [W25Q64_JEDEC_ID, 0, 0, 0] s"
  by (simp_all add: readJedecId_def frame_simps)

lemma readUniqueId_frame:
  "fst (readUniqueId dev unique_id s) = W25Q64_OK"
  "bus (snd (snd (readUniqueId dev unique_id s))) =
     bus s @
     [DigitalWrite (cs_pin (chip s)) LOW, BeginTransaction (spi_settings (chip s))] @
     exchange dev
       (bus s @ [DigitalWrite (cs_pin (chip s)) LOW, BeginTransaction (spi_settings (chip s))])
       (W25Q64_READ_UNIQUE_ID # replicate 4 0 @ replicate 8 0)"
  "chip (snd (snd (readUniqueId dev unique_id s))) = chip s"
  unfolding readUniqueId_def fold_send
  by (simp_all add: read_sequential_bus Let_def case_prod_beta select_eq send_eq exchange_append)

lemma busy_state: "snd (busy dev s) = transact dev [] [W25Q64_READ_STATUS_REGISTER_1, 0] s"
  by (simp add: busy_def readStatusRegister1_def frame_simps)

lemma busy_flag:
  "fst (busy dev s) = (fst (snd (readStatusRegister1 dev s)) AND 1 \<noteq> 0)"
  by (simp add: busy_def case_prod_beta)

lemma chip_busy [simp]: "chip (snd (busy dev s)) = chip s"
  by (simp add: busy_state)

lemma readData_frame:
  "fst (readData dev addr buff len s) = (if fst (busy dev s) then W25Q64_BUSY else W25Q64_OK)"
  "snd (snd (readData dev addr buff len s)) =
     (if fst (busy dev s) then snd (busy dev s)
      else transact dev [read_data_spi_settings]
             (W25Q64_READ_DATA # address_bytes addr @ replicate (unat len) 0)
             (snd (busy dev s)))"
  by (simp_all add: readData_def busy_state frame_simps)

lemma fastRead_frame:
  "fst (fastRead dev addr buff len s) = (if fst (busy dev s) then W25Q64_BUSY else W25Q64_OK)"
  "snd (snd (fastRead dev addr buff len s)) =
     (if fst (busy dev s) then snd (busy dev s)
      else transact dev []
             (W25Q64_FAST_READ # address_bytes addr @ 0 # replicate (unat len) 0)
             (snd (busy dev s)))"
  by (simp_all add: fastRead_def busy_state frame_simps)

lemma pageProgram_frame:
  "pageProgram dev addr buff len s =
     (if fst (busy dev s) then (W25Q64_BUSY, snd (busy dev s))
      else (W25Q64_OK,
            transact dev []
              (W25Q64_PAGE_PROGRAM # address_bytes addr @ map buff [0..<unat len])
              (snd (busy dev s))))"
  by (simp add: pageProgram_def busy_state frame_simps)

lemma sectorErase_frame:
  "sectorErase dev addr s =
     (if fst (busy dev s) then (W25Q64_BUSY, snd (busy dev s))
      else (W25Q64_OK,
            transact dev []
              (W25Q64_SECTOR_ERASE # address_bytes addr)
              (snd (busy dev s))))"
  by (simp add: sectorErase_def busy_state frame_simps)

lemma block32Erase_frame:
  "block32Erase dev addr s =
     (if fst (busy dev s) then (W25Q64_BUSY, snd (busy dev s))
      else (W25Q64_OK,
            transact dev []
              (W25Q64_BLOCK_32_ERASE # address_bytes addr)
              (snd (busy dev s))))"
  by (simp add: block32Erase_def busy_state frame_simps)

lemma block64Erase_frame:
  "block64Erase dev addr s =
     (if fst (busy dev s) then (W25Q64_BUSY, snd (busy dev s))
      else (W25Q64_OK,
            transact dev []
              (W25Q64_BLOCK_64_ERASE # address_bytes addr)
              (snd (busy dev s))))"
  by (simp add: block64Erase_def busy_state frame_simps)

lemma chipErase_frame:
  "chipErase dev s =
     (if fst (busy dev s) then (W25Q64_BUSY, snd (busy dev s))
      else (W25Q64_OK,
            transact dev []
              ([W25Q64_CHIP_ERASE])
              (snd (busy dev s))))"
  by (simp add: chipErase_def busy_state frame_simps)

lemma writeStatusRegister1_frame:
  "writeStatusRegister1 dev reg s =
     (if fst (busy dev s) then (W25Q64_BUSY, snd (busy dev s))
      else (W25Q64_OK,
            transact dev []
              ([W25Q64_WRITE_STATUS_REGISTER_1, reg])
              (snd (busy dev s))))"
  by (simp add: writeStatusRegister1_def busy_state frame_simps)

lemma writeStatusRegister2_frame:
  "writeStatusRegister2 dev reg s =
     (if fst (busy dev s) then (W25Q64_BUSY, snd (busy dev s))
      else (W25Q64_OK,
            transact dev []
              ([W25Q64_WRITE_STATUS_REGISTER_2, reg])
              (snd (busy dev s))))"
  by (simp add: writeStatusRegister2_def busy_state frame_simps)

lemma writeStatusRegister3_frame:
  "writeStatusRegister3 dev reg s =
     (if fst (busy dev s) then (W25Q64_BUSY, snd (busy dev s))
      else (W25Q64_OK,
            transact dev []
              ([W25Q64_WRITE_STATUS_REGISTER_3, reg])
              (snd (busy dev s))))"
  by (simp add: writeStatusRegister3_def busy_state frame_simps)

lemma readSFDPRegister_frame:
  "fst (readSFDPRegister dev addr buff len s) = (if fst (busy dev s) then W25Q64_BUSY else W25Q64_OK)"
  "snd (snd (readSFDPRegister dev addr buff len s)) =
     (if fst (busy dev s) then snd (busy dev s)
      else transact dev []
             (W25Q64_READ_SFDP_REGISTER # address_bytes addr @ 0 # replicate (unat len) 0)
             (snd (busy dev s)))"
  by (simp_all add: readSFDPRegister_def busy_state frame_simps)

lemma eraseSecurityRegister_frame:
  "eraseSecurityRegister dev addr s =
     (if fst (busy dev s) then (W25Q64_BUSY, snd (busy dev s))
      else (W25Q64_OK,
            transact dev []
              (W25Q64_ERASE_SECURITY_REGISTER # address_bytes addr)
              (snd (busy dev s))))"
  by (simp add: eraseSecurityRegister_def busy_state frame_simps)

lemma programSecurityRegister_frame:
  "programSecurityRegister dev addr buff len s =
     (if fst (busy dev s) then (W25Q64_BUSY, snd (busy dev s))
      else (W25Q64_OK,
            transact dev []
              (W25Q64_PROGRAM_SECURITY_REGISTER # address_bytes addr @ map buff [0..<unat len])
              (snd (busy dev s))))"
  by (simp add: programSecurityRegister_def busy_state frame_simps)

lemma readSecurityRegister_frame:
  "fst (readSecurityRegister dev addr buff len s) = (if fst (busy dev s) then W25Q64_BUSY else W25Q64_OK)"
  "snd (snd (readSecurityRegister dev addr buff len s)) =
     (if fst (busy dev s) then snd (busy dev s)
      else transact dev []
             (W25Q64_READ_SECURITY_REGISTER # address_bytes addr @ 0 # replicate (unat len) 0)
             (snd (busy dev s)))"
  by (simp_all add: readSecurityRegister_def busy_state frame_simps)

lemma reset_frame:
  "reset dev s =
     (if fst (busy dev s) then (W25Q64_BUSY, snd (busy dev s))
      else (W25Q64_OK,
            transact dev [] [W25Q64_RESET_DEVICE]
              (transact dev [] [W25Q64_ENABLE_RESET] (snd (busy dev s)))))"
  by (simp add: reset_def enableReset_frame resetDevice_frame Let_def case_prod_beta)

lemma gated_read_buffer_busy:
  "fst (busy dev s) \<Longrightarrow> fst (snd (readData dev addr buff len s)) = buff"
  "fst (busy dev s) \<Longrightarrow> fst (snd (fastRead dev addr buff len s)) = buff"
  "fst (busy dev s) \<Longrightarrow> fst (snd (readSFDPRegister dev addr buff len s)) = buff"
  "fst (busy dev s) \<Longrightarrow> fst (snd (readSecurityRegister dev addr buff len s)) = buff"
  by (simp_all add: readData_def fastRead_def readSFDPRegister_def readSecurityRegister_def
      case_prod_beta)

section \<open>The busy check and the concrete devices\<close>

lemma busy_shape:
  "\<exists>r0 r1. busy dev s = (r1 AND 1 \<noteq> 0,
     s\<lparr>bus := bus s @
       [DigitalWrite (cs_pin (chip s)) LOW, BeginTransaction (spi_settings (chip s)),
        Transfer W25Q64_READ_STATUS_REGISTER_1 r0, Transfer 0 r1,
        DigitalWrite (cs_pin (chip s)) HIGH, EndTransaction]\<rparr>)"
  by (cases s) (simp add: busy_def readStatusRegister1_def step_eqs transfer_eq)

lemma busy_device_busy [simp]: "fst (busy busy_device s)"
  by (simp add: busy_def readStatusRegister1_def frame_simps busy_device_def)

lemma quiet_device_idle [simp]: "\<not> fst (busy quiet_device s)"
  by (simp add: busy_def readStatusRegister1_def frame_simps quiet_device_def)

lemma exchange_busy_device:
  "exchange busy_device tr outs = map (\<lambda>out. Transfer out 0x03) outs"
  by (induction outs arbitrary: tr) (simp_all add: busy_device_def)

lemma exchange_quiet_device:
  "exchange quiet_device tr outs = map (\<lambda>out. Transfer out 0) outs"
  by (induction outs arbitrary: tr) (simp_all add: quiet_device_def)

lemmas boot_simps = boot_system_def transact_def transaction_def emitted_def

lemma readManufacturerId_shape:
  "\<exists>r0 b0 b1 b2 b3 b4.
      readManufacturerId dev s =
        (W25Q64_OK, b3, b4,
         s\<lparr>bus := bus s @
          [DigitalWrite (cs_pin (chip s)) LOW, BeginTransaction (spi_settings (chip s)),
           Transfer W25Q64_MANUFACTURER_ID r0,
           Transfer 0 b0, Transfer 0 b1, Transfer 0 b2, Transfer 0 b3, Transfer 0 b4,
           DigitalWrite (cs_pin (chip s)) HIGH, EndTransaction]\<rparr>)"
  by (cases s) (simp add: readManufacturerId_def upt5 step_eqs transfer_eq)

lemma send_address_take_bit: "send_address dev (take_bit 24 addr) s = send_address dev addr s"
  by (simp add: send_address_eq address_bytes_take_bit)

lemma scoped_exchange_end [simp]: "scoped True (exchange dev tr outs) = Some True"
  using scoped_exchange [of dev tr outs "[]"] by simp

lemma replicate_2: "replicate 2 x = [x, x]"
  by (simp add: numeral_2_eq_2)

lemma address_bytes_0x000100: "address_bytes 0x000100 = [0x00, 0x01, 0x00]"
  by (simp add: address_bytes_code drop_bit_eq_div)

section \<open>The busy gate\<close>

text \<open>
  Claim C1, as amended. When the busy flag is set at the call, each of \<^verbatim>\<open>pageProgram\<close>,
  \<^verbatim>\<open>sectorErase\<close>, \<^verbatim>\<open>block32Erase\<close>, \<^verbatim>\<open>block64Erase\<close>, \<^verbatim>\<open>chipErase\<close>,
  \<^verbatim>\<open>writeStatusRegister1/2/3\<close>, \<^verbatim>\<open>eraseSecurityRegister\<close> and
  \<^verbatim>\<open>programSecurityRegister\<close> returns \<^verbatim>\<open>BUSY\<close> and leaves the system as the busy check
  alone leaves it: one chip-select bracket in which the bytes \<open>0x05\<close> and \<open>0x00\<close> of the
  status read are sent. No opcode of the operation, no address byte and no payload byte
  is sent.
\<close>

theorem mutating_rejected_when_busy:
  assumes "fst (busy dev s)"
  shows "pageProgram dev addr buff len s = (W25Q64_BUSY, snd (busy dev s)) \<and>
         sectorErase dev addr s = (W25Q64_BUSY, snd (busy dev s)) \<and>
         block32Erase dev addr s = (W25Q64_BUSY, snd (busy dev s)) \<and>
         block64Erase dev addr s = (W25Q64_BUSY, snd (busy dev s)) \<and>
         chipErase dev s = (W25Q64_BUSY, snd (busy dev s)) \<and>
         writeStatusRegister1 dev reg s = (W25Q64_BUSY, snd (busy dev s)) \<and>
         writeStatusRegister2 dev reg s = (W25Q64_BUSY, snd (busy dev s)) \<and>
         writeStatusRegister3 dev reg s = (W25Q64_BUSY, snd (busy dev s)) \<and>
         eraseSecurityRegister dev addr s = (W25Q64_BUSY, snd (busy dev s)) \<and>
         programSecurityRegister dev addr buff len s = (W25Q64_BUSY, snd (busy dev s)) \<and>
         bus (snd (busy dev s)) = bus s @ emitted s (snd (busy dev s)) \<and>
         select_calls (emitted s (snd (busy dev s))) = 1 \<and>
         release_calls (emitted s (snd (busy dev s))) = 1 \<and>
         sent (emitted s (snd (busy dev s))) = [W25Q64_READ_STATUS_REGISTER_1, 0]"
proof -
  have "bus (snd (busy dev s)) = bus s @ emitted s (snd (busy dev s))"
    by (simp add: busy_state bus_transact)
  moreover have "select_calls (emitted s (snd (busy dev s))) = 1"
    "release_calls (emitted s (snd (busy dev s))) = 1"
    "sent (emitted s (snd (busy dev s))) = [W25Q64_READ_STATUS_REGISTER_1, 0]"
    by (simp_all add: busy_state)
  ultimately show ?thesis
    using assms
    by (simp add: pageProgram_frame sectorErase_frame block32Erase_frame block64Erase_frame
        chipErase_frame writeStatusRegister1_frame writeStatusRegister2_frame
        writeStatusRegister3_frame eraseSecurityRegister_frame programSecurityRegister_frame)
qed

theorem mutating_rejected_when_busy_witness:
  "fst (busy busy_device boot_system) \<and>
   pageProgram busy_device 0x000100 sample_buffer 2 boot_system =
     (W25Q64_BUSY, snd (busy busy_device boot_system)) \<and>
   sent (emitted boot_system (snd (busy busy_device boot_system))) =
     [W25Q64_READ_STATUS_REGISTER_1, 0]"
proof -
  have h: "fst (busy busy_device boot_system)"
    by simp
  from mutating_rejected_when_busy [OF h, where addr = "0x000100" and buff = sample_buffer
      and len = 2 and reg = 0]
  show ?thesis
    using h by blast
qed

text \<open>
  Claim C1 as stated says that the rejected operation performs no bus transaction. It does
  perform one, the status read of its busy check: on a busy device the trace of
  \<^verbatim>\<open>pageProgram\<close> grows from empty to the six events of that read.
\<close>

theorem mutating_rejected_counterexample:
  "fst (busy busy_device boot_system) \<and>
   bus boot_system = [] \<and>
   bus (snd (pageProgram busy_device 0x000100 sample_buffer 2 boot_system)) =
     [DigitalWrite 10 LOW, BeginTransaction default_spi_settings,
      Transfer W25Q64_READ_STATUS_REGISTER_1 0x03, Transfer 0 0x03,
      DigitalWrite 10 HIGH, EndTransaction]"
  by (simp add: pageProgram_frame busy_state)
     (simp add: boot_simps busy_device_def)

text \<open>
  Claim C2, as amended. \<^verbatim>\<open>readManufacturerId\<close>, \<^verbatim>\<open>readJedecId\<close>, \<^verbatim>\<open>readUniqueId\<close>
  and \<^verbatim>\<open>readStatusRegister1/2/3\<close> always return \<^verbatim>\<open>OK\<close> and select the chip once, for
  their own opcode and the zero bytes that clock the answer out: no status read precedes
  it. \<^verbatim>\<open>readData\<close>, \<^verbatim>\<open>fastRead\<close>, \<^verbatim>\<open>readSFDPRegister\<close> and
  \<^verbatim>\<open>readSecurityRegister\<close> are behind the busy check and return \<^verbatim>\<open>BUSY\<close> when the
  flag is set.
\<close>

theorem read_operations_busy_gate:
  "fst (readManufacturerId dev s) = W25Q64_OK \<and>
   snd (snd (snd (readManufacturerId dev s))) =
     transact dev [] [W25Q64_MANUFACTURER_ID, 0, 0, 0, 0, 0] s \<and>
   fst (readJedecId dev s) = W25Q64_OK \<and>
   snd (snd (snd (snd (readJedecId dev s)))) = transact dev [] [W25Q64_JEDEC_ID, 0, 0, 0] s \<and>
   fst (readUniqueId dev unique_id s) = W25Q64_OK \<and>
   select_calls (emitted s (snd (snd (readUniqueId dev unique_id s)))) = 1 \<and>
   sent (emitted s (snd (snd (readUniqueId dev unique_id s)))) =
     W25Q64_READ_UNIQUE_ID # replicate 12 0 \<and>
   fst (readStatusRegister1 dev s) = W25Q64_OK \<and>
   snd (snd (readStatusRegister1 dev s)) = transact dev [] [W25Q64_READ_STATUS_REGISTER_1, 0] s \<and>
   fst (readStatusRegister2 dev s) = W25Q64_OK \<and>
   snd (snd (readStatusRegister2 dev s)) = transact dev [] [W25Q64_READ_STATUS_REGISTER_2, 0] s \<and>
   fst (readStatusRegister3 dev s) = W25Q64_OK \<and>
   snd (snd (readStatusRegister3 dev s)) = transact dev [] [W25Q64_READ_STATUS_REGISTER_3, 0] s \<and>
   (fst (busy dev s) \<longrightarrow>
      fst (readData dev addr buff len s) = W25Q64_BUSY \<and>
      fst (fastRead dev addr buff len s) = W25Q64_BUSY \<and>
      fst (readSFDPRegister dev addr buff len s) = W25Q64_BUSY \<and>
      fst (readSecurityRegister dev addr buff len s) = W25Q64_BUSY)"
proof -
  have uid: "select_calls (emitted s (snd (snd (readUniqueId dev unique_id s)))) = 1"
    "sent (emitted s (snd (snd (readUniqueId dev unique_id s)))) =
       W25Q64_READ_UNIQUE_ID # replicate 12 0"
    by (simp_all add: emitted_def readUniqueId_frame select_calls_def
        flip: replicate_add)
  show ?thesis
    by (simp add: readManufacturerId_frame readJedecId_frame readUniqueId_frame uid
        readStatusRegister1_frame readStatusRegister2_frame readStatusRegister3_frame
        readData_frame fastRead_frame readSFDPRegister_frame readSecurityRegister_frame)
qed

theorem read_operations_busy_gate_witness:
  "fst (busy busy_device boot_system) \<and>
   fst (readStatusRegister1 busy_device boot_system) = W25Q64_OK \<and>
   fst (readData busy_device 0x000100 blank_buffer 2 boot_system) = W25Q64_BUSY"
proof -
  have h: "fst (busy busy_device boot_system)"
    by simp
  from read_operations_busy_gate [where dev = busy_device and s = boot_system
      and addr = "0x000100" and buff = blank_buffer and len = 2]
  show ?thesis
    using h by blast
qed

text \<open>
  Claim C2 as stated lists \<^verbatim>\<open>readData\<close> among the operations that never return
  \<^verbatim>\<open>BUSY\<close>. On a busy device it does.
\<close>

theorem read_busy_gate_counterexample:
  "fst (busy busy_device boot_system) \<and>
   fst (readData busy_device 0x000100 blank_buffer 2 boot_system) = W25Q64_BUSY"
  by (simp add: readData_frame)

text \<open>
  Claim C10. When the busy flag is set at the call, every operation behind the busy check
  returns \<^verbatim>\<open>BUSY\<close>, hands the caller's buffer back as it was, leaves the fields of the
  handle as they were, and adds to the trace exactly the six events of one status read:
  chip select low, transaction opened, \<open>0x05\<close> sent, one zero byte sent whose answer has
  bit 0 set, chip select high, transaction closed.
\<close>

theorem busy_rejection_only_polls:
  assumes "fst (busy dev s)"
  shows "\<exists>r0 r1. r1 AND 1 \<noteq> 0 \<and>
    (let s' = s\<lparr>bus := bus s @
       [DigitalWrite (cs_pin (chip s)) LOW, BeginTransaction (spi_settings (chip s)),
        Transfer W25Q64_READ_STATUS_REGISTER_1 r0, Transfer 0 r1,
        DigitalWrite (cs_pin (chip s)) HIGH, EndTransaction]\<rparr>
     in chip s' = chip s \<and>
        readData dev addr buff len s = (W25Q64_BUSY, buff, s') \<and>
        fastRead dev addr buff len s = (W25Q64_BUSY, buff, s') \<and>
        pageProgram dev addr buff len s = (W25Q64_BUSY, s') \<and>
        sectorErase dev addr s = (W25Q64_BUSY, s') \<and>
        block32Erase dev addr s = (W25Q64_BUSY, s') \<and>
        block64Erase dev addr s = (W25Q64_BUSY, s') \<and>
        chipErase dev s = (W25Q64_BUSY, s') \<and>
        writeStatusRegister1 dev reg s = (W25Q64_BUSY, s') \<and>
        writeStatusRegister2 dev reg s = (W25Q64_BUSY, s') \<and>
        writeStatusRegister3 dev reg s = (W25Q64_BUSY, s') \<and>
        readSFDPRegister dev addr buff len s = (W25Q64_BUSY, buff, s') \<and>
        eraseSecurityRegister dev addr s = (W25Q64_BUSY, s') \<and>
        programSecurityRegister dev addr buff len s = (W25Q64_BUSY, s') \<and>
        readSecurityRegister dev addr buff len s = (W25Q64_BUSY, buff, s') \<and>
        reset dev s = (W25Q64_BUSY, s'))"
proof -
  obtain r0 r1 where b: "busy dev s = (r1 AND 1 \<noteq> 0,
     s\<lparr>bus := bus s @
       [DigitalWrite (cs_pin (chip s)) LOW, BeginTransaction (spi_settings (chip s)),
        Transfer W25Q64_READ_STATUS_REGISTER_1 r0, Transfer 0 r1,
        DigitalWrite (cs_pin (chip s)) HIGH, EndTransaction]\<rparr>)"
    using busy_shape by blast
  with assms have flag: "r1 AND 1 \<noteq> 0" by simp
  have "r1 AND 1 \<noteq> 0 \<and>
    (let s' = s\<lparr>bus := bus s @
       [DigitalWrite (cs_pin (chip s)) LOW, BeginTransaction (spi_settings (chip s)),
        Transfer W25Q64_READ_STATUS_REGISTER_1 r0, Transfer 0 r1,
        DigitalWrite (cs_pin (chip s)) HIGH, EndTransaction]\<rparr>
     in chip s' = chip s \<and>
        readData dev addr buff len s = (W25Q64_BUSY, buff, s') \<and>
        fastRead dev addr buff len s = (W25Q64_BUSY, buff, s') \<and>
        pageProgram dev addr buff len s = (W25Q64_BUSY, s') \<and>
        sectorErase dev addr s = (W25Q64_BUSY, s') \<and>
        block32Erase dev addr s = (W25Q64_BUSY, s') \<and>
        block64Erase dev addr s = (W25Q64_BUSY, s') \<and>
        chipErase dev s = (W25Q64_BUSY, s') \<and>
        writeStatusRegister1 dev reg s = (W25Q64_BUSY, s') \<and>
        writeStatusRegister2 dev reg s = (W25Q64_BUSY, s') \<and>
        writeStatusRegister3 dev reg s = (W25Q64_BUSY, s') \<and>
        readSFDPRegister dev addr buff len s = (W25Q64_BUSY, buff, s') \<and>
        eraseSecurityRegister dev addr s = (W25Q64_BUSY, s') \<and>
        programSecurityRegister dev addr buff len s = (W25Q64_BUSY, s') \<and>
        readSecurityRegister dev addr buff len s = (W25Q64_BUSY, buff, s') \<and>
        reset dev s = (W25Q64_BUSY, s'))"
    using flag
    by (simp add: Let_def b readData_def fastRead_def pageProgram_def sectorErase_def
        block32Erase_def block64Erase_def chipErase_def writeStatusRegister1_def
        writeStatusRegister2_def writeStatusRegister3_def readSFDPRegister_def
        eraseSecurityRegister_def programSecurityRegister_def readSecurityRegister_def reset_def)
  then show ?thesis by blast
qed

theorem busy_rejection_only_polls_witness:
  "fst (busy busy_device boot_system) \<and>
   (\<exists>r0 r1. r1 AND 1 \<noteq> 0 \<and>
      pageProgram busy_device 0x000100 sample_buffer 2 boot_system =
        (W25Q64_BUSY,
         boot_system\<lparr>bus := bus boot_system @
           [DigitalWrite (cs_pin (chip boot_system)) LOW,
            BeginTransaction (spi_settings (chip boot_system)),
            Transfer W25Q64_READ_STATUS_REGISTER_1 r0, Transfer 0 r1,
            DigitalWrite (cs_pin (chip boot_system)) HIGH, EndTransaction]\<rparr>))"
proof -
  have h: "fst (busy busy_device boot_system)"
    by simp
  from busy_rejection_only_polls [OF h, where addr = "0x000100" and buff = sample_buffer
      and len = 2 and reg = 0]
  show ?thesis
    unfolding Let_def using h by blast
qed

section \<open>Identification and initialisation\<close>

text \<open>
  Claim C9. \<^verbatim>\<open>readManufacturerId\<close> selects the chip, sends its opcode \<open>0x90\<close>, transfers
  five zero bytes, releases the chip and returns \<^verbatim>\<open>OK\<close>; \<^verbatim>\<open>*manufacturer_id\<close> is the
  answer to the fourth of the five transfers (offset 3) and \<^verbatim>\<open>*device_id\<close> the answer to
  the fifth (offset 4). When the answers to the five transfers are
  \<open>0x00, 0x00, 0x00, 0xEF, 0x16\<close>, the call yields \<open>0xEF\<close> and \<open>0x16\<close>.
\<close>

theorem readManufacturerId_ids:
  "case readManufacturerId dev s of (r, manufacturer_id, device_id, s') \<Rightarrow>
     r = W25Q64_OK \<and> chip s' = chip s \<and>
     (\<exists>r0 b0 b1 b2 b3 b4.
        bus s' = bus s @
          [DigitalWrite (cs_pin (chip s)) LOW, BeginTransaction (spi_settings (chip s)),
           Transfer W25Q64_MANUFACTURER_ID r0,
           Transfer 0 b0, Transfer 0 b1, Transfer 0 b2, Transfer 0 b3, Transfer 0 b4,
           DigitalWrite (cs_pin (chip s)) HIGH, EndTransaction] \<and>
        manufacturer_id = b3 \<and> device_id = b4) \<and>
     (drop 1 (received (emitted s s')) = [0x00, 0x00, 0x00, 0xEF, 0x16] \<longrightarrow>
        manufacturer_id = 0xEF \<and> device_id = 0x16)"
proof -
  from readManufacturerId_shape [of dev s]
  obtain r0 b0 b1 b2 b3 b4 where
    eq: "readManufacturerId dev s =
        (W25Q64_OK, b3, b4,
         s\<lparr>bus := bus s @
          [DigitalWrite (cs_pin (chip s)) LOW, BeginTransaction (spi_settings (chip s)),
           Transfer W25Q64_MANUFACTURER_ID r0,
           Transfer 0 b0, Transfer 0 b1, Transfer 0 b2, Transfer 0 b3, Transfer 0 b4,
           DigitalWrite (cs_pin (chip s)) HIGH, EndTransaction]\<rparr>)"
    by blast
  show ?thesis
    by (simp add: eq emitted_def)
qed

theorem readManufacturerId_ids_witness:
  "drop 1 (received (emitted boot_system
      (snd (snd (snd (readManufacturerId (scripted_device [0x00, 0x00, 0x00, 0xEF, 0x16])
         boot_system)))))) = [0x00, 0x00, 0x00, 0xEF, 0x16] \<and>
   fst (readManufacturerId (scripted_device [0x00, 0x00, 0x00, 0xEF, 0x16]) boot_system) =
     W25Q64_OK \<and>
   fst (snd (readManufacturerId (scripted_device [0x00, 0x00, 0x00, 0xEF, 0x16])
     boot_system)) = 0xEF \<and>
   fst (snd (snd (readManufacturerId (scripted_device [0x00, 0x00, 0x00, 0xEF, 0x16])
     boot_system))) = 0x16"
proof -
  have h: "drop 1 (received (emitted boot_system
      (snd (snd (snd (readManufacturerId (scripted_device [0x00, 0x00, 0x00, 0xEF, 0x16])
         boot_system)))))) = [0x00, 0x00, 0x00, 0xEF, 0x16]"
    by (simp add: readManufacturerId_frame)
       (simp add: boot_simps scripted_device_def)
  from readManufacturerId_ids [where dev = "scripted_device [0x00, 0x00, 0x00, 0xEF, 0x16]"
      and s = boot_system]
  show ?thesis
    using h by (auto simp: case_prod_beta)
qed

text \<open>
  Claim C4. \<^verbatim>\<open>init\<close> configures the pin, starts the SPI peripheral and reads the IDs with
  one \<^verbatim>\<open>readManufacturerId\<close> transaction. With \<open>m\<close> and \<open>d\<close> the manufacturer and
  device ID that transaction read, \<^verbatim>\<open>init\<close> returns \<^verbatim>\<open>OK\<close> exactly when \<open>m = 0xEF\<close>
  and \<open>d = 0x16\<close>, \<^verbatim>\<open>UNKOWN_MANUFACTURER_ID\<close> when \<open>m\<close> differs, and
  \<^verbatim>\<open>UNKOWN_DEVICE_ID\<close> when \<open>m\<close> is right and \<open>d\<close> differs. Whatever the result, the
  trace ends with the release of that transaction and the handle holds the pin and the
  status of the ID read: nothing happens after the handshake.
\<close>

theorem init_identity_check:
  "case init dev pin s of (r, s') \<Rightarrow>
     \<exists>r0 b0 b1 b2 m d.
       bus s' = bus s @
         [PinMode pin OUTPUT, DigitalWrite pin HIGH, SpiBegin,
          DigitalWrite pin LOW, BeginTransaction (spi_settings (chip s)),
          Transfer W25Q64_MANUFACTURER_ID r0,
          Transfer 0 b0, Transfer 0 b1, Transfer 0 b2, Transfer 0 m, Transfer 0 d,
          DigitalWrite pin HIGH, EndTransaction] \<and>
       chip s' = (chip s)\<lparr>cs_pin := pin, status := W25Q64_OK\<rparr> \<and>
       (r = W25Q64_OK) = (m = 0xEF \<and> d = 0x16) \<and>
       r = (if m \<noteq> 0xEF then W25Q64_UNKOWN_MANUFACTURER_ID
            else if d \<noteq> 0x16 then W25Q64_UNKOWN_DEVICE_ID
            else W25Q64_OK)"
proof -
  define s4 where "s4 = s\<lparr>chip := (chip s)\<lparr>cs_pin := pin\<rparr>,
      bus := bus s @ [PinMode pin OUTPUT, DigitalWrite pin HIGH, SpiBegin]\<rparr>"
  from readManufacturerId_shape [of dev s4]
  obtain r0 b0 b1 b2 m d where
    eq: "readManufacturerId dev s4 =
        (W25Q64_OK, m, d,
         s4\<lparr>bus := bus s4 @
          [DigitalWrite (cs_pin (chip s4)) LOW, BeginTransaction (spi_settings (chip s4)),
           Transfer W25Q64_MANUFACTURER_ID r0,
           Transfer 0 b0, Transfer 0 b1, Transfer 0 b2, Transfer 0 m, Transfer 0 d,
           DigitalWrite (cs_pin (chip s4)) HIGH, EndTransaction]\<rparr>)"
    by blast
  have "init dev pin s =
      (if m \<noteq> 0xEF then W25Q64_UNKOWN_MANUFACTURER_ID
       else if d \<noteq> 0x16 then W25Q64_UNKOWN_DEVICE_ID
       else W25Q64_OK,
       \<lparr>chip = (chip s)\<lparr>cs_pin := pin, status := W25Q64_OK\<rparr>,
        bus = bus s @
         [PinMode pin OUTPUT, DigitalWrite pin HIGH, SpiBegin,
          DigitalWrite pin LOW, BeginTransaction (spi_settings (chip s)),
          Transfer W25Q64_MANUFACTURER_ID r0,
          Transfer 0 b0, Transfer 0 b1, Transfer 0 b2, Transfer 0 m, Transfer 0 d,
          DigitalWrite pin HIGH, EndTransaction]\<rparr>)"
    using eq unfolding s4_def
    by (cases s)
       (simp add: init_def Let_def pinMode_def digitalWrite_def SPI_begin_def emit_def)
  then show ?thesis
    by simp
qed

text \<open>
  Three runs of \<^verbatim>\<open>init\<close> on pin 10: a device that identifies as \<open>0xEF, 0x16\<close>, one
  with another manufacturer ID, one with another device ID, and one with both wrong.
\<close>

lemma readManufacturerId_values:
  "fst (snd (readManufacturerId dev s)) =
     received (emitted s (snd (snd (snd (readManufacturerId dev s))))) ! 4"
  "fst (snd (snd (readManufacturerId dev s))) =
     received (emitted s (snd (snd (snd (readManufacturerId dev s))))) ! 5"
  by (simp_all add: readManufacturerId_def upt5 step_eqs transfer_eq emitted_def)

lemma init_eq:
  "init dev pin s =
     (let s4 = s\<lparr>chip := (chip s)\<lparr>cs_pin := pin\<rparr>,
                bus := bus s @ [PinMode pin OUTPUT, DigitalWrite pin HIGH, SpiBegin]\<rparr>;
          s5 = transact dev [] [W25Q64_MANUFACTURER_ID, 0, 0, 0, 0, 0] s4;
          s6 = s5\<lparr>chip := (chip s4)\<lparr>status := W25Q64_OK\<rparr>\<rparr>
      in (if received (emitted s4 s5) ! 4 \<noteq> 0xEF then W25Q64_UNKOWN_MANUFACTURER_ID
          else if received (emitted s4 s5) ! 5 \<noteq> 0x16 then W25Q64_UNKOWN_DEVICE_ID
          else W25Q64_OK, s6))"
  unfolding init_def Let_def case_prod_beta
  by (simp add: pinMode_def digitalWrite_def SPI_begin_def emit_def readManufacturerId_values
      readManufacturerId_frame)

lemma init_examples:
  "init (scripted_device [0x00, 0x00, 0x00, 0xEF, 0x16]) 10 boot_system =
     (W25Q64_OK,
      boot_system\<lparr>bus :=
        [PinMode 10 OUTPUT, DigitalWrite 10 HIGH, SpiBegin,
         DigitalWrite 10 LOW, BeginTransaction default_spi_settings,
         Transfer W25Q64_MANUFACTURER_ID 0,
         Transfer 0 0x00, Transfer 0 0x00, Transfer 0 0x00, Transfer 0 0xEF, Transfer 0 0x16,
         DigitalWrite 10 HIGH, EndTransaction]\<rparr>)"
  "fst (init (scripted_device [0x00, 0x00, 0x00, 0xC2, 0x16]) 10 boot_system) =
     W25Q64_UNKOWN_MANUFACTURER_ID"
  "fst (init (scripted_device [0x00, 0x00, 0x00, 0xEF, 0x17]) 10 boot_system) =
     W25Q64_UNKOWN_DEVICE_ID"
  "fst (init (scripted_device [0x00, 0x00, 0x00, 0xC2, 0x17]) 10 boot_system) =
     W25Q64_UNKOWN_MANUFACTURER_ID"
  by (simp_all add: init_eq boot_simps scripted_device_def)

section \<open>Address framing\<close>

text \<open>
  Claim C5. When the busy check lets it proceed, each of \<^verbatim>\<open>readData\<close>, \<^verbatim>\<open>fastRead\<close>,
  \<^verbatim>\<open>pageProgram\<close>, \<^verbatim>\<open>sectorErase\<close>, \<^verbatim>\<open>block32Erase\<close>, \<^verbatim>\<open>block64Erase\<close>,
  \<^verbatim>\<open>readSFDPRegister\<close>, \<^verbatim>\<open>eraseSecurityRegister\<close>, \<^verbatim>\<open>programSecurityRegister\<close> and
  \<^verbatim>\<open>readSecurityRegister\<close> performs one transaction whose bytes are the opcode, then the
  three bytes \<open>address_bytes addr\<close>, then the dummy and payload bytes of the operation.
  The three bytes are bits 23..16, 15..8 and 7..0 of the address, so their big-endian value
  is the address masked to 24 bits. Bits 24 to 31 of the address have no effect at all:
  each operation called with the masked address gives the same result and the same trace.
\<close>

theorem addressed_operations_frame:
  assumes "\<not> fst (busy dev s)"
  shows
    "length (address_bytes addr) = 3 \<and>
     big_endian (address_bytes addr) = addr AND 0xFFFFFF \<and>
     address_bytes addr = [ucast (drop_bit 16 addr), ucast (drop_bit 8 addr), ucast addr] \<and>
     snd (snd (readData dev addr buff len s)) =
       transact dev [read_data_spi_settings]
         (W25Q64_READ_DATA # address_bytes addr @ replicate (unat len) 0) (snd (busy dev s)) \<and>
     snd (snd (fastRead dev addr buff len s)) =
       transact dev []
         (W25Q64_FAST_READ # address_bytes addr @ 0 # replicate (unat len) 0)
         (snd (busy dev s)) \<and>
     snd (pageProgram dev addr buff len s) =
       transact dev []
         (W25Q64_PAGE_PROGRAM # address_bytes addr @ map buff [0..<unat len])
         (snd (busy dev s)) \<and>
     snd (sectorErase dev addr s) =
       transact dev [] (W25Q64_SECTOR_ERASE # address_bytes addr) (snd (busy dev s)) \<and>
     snd (block32Erase dev addr s) =
       transact dev [] (W25Q64_BLOCK_32_ERASE # address_bytes addr) (snd (busy dev s)) \<and>
     snd (block64Erase dev addr s) =
       transact dev [] (W25Q64_BLOCK_64_ERASE # address_bytes addr) (snd (busy dev s)) \<and>
     snd (snd (readSFDPRegister dev addr buff len s)) =
       transact dev []
         (W25Q64_READ_SFDP_REGISTER # address_bytes addr @ 0 # replicate (unat len) 0)
         (snd (busy dev s)) \<and>
     snd (eraseSecurityRegister dev addr s) =
       transact dev [] (W25Q64_ERASE_SECURITY_REGISTER # address_bytes addr)
         (snd (busy dev s)) \<and>
     snd (programSecurityRegister dev addr buff len s) =
       transact dev []
         (W25Q64_PROGRAM_SECURITY_REGISTER # address_bytes addr @ map buff [0..<unat len])
         (snd (busy dev s)) \<and>
     snd (snd (readSecurityRegister dev addr buff len s)) =
       transact dev []
         (W25Q64_READ_SECURITY_REGISTER # address_bytes addr @ 0 # replicate (unat len) 0)
         (snd (busy dev s)) \<and>
     readData dev (addr AND 0xFFFFFF) buff len s = readData dev addr buff len s \<and>
     fastRead dev (addr AND 0xFFFFFF) buff len s = fastRead dev addr buff len s \<and>
     pageProgram dev (addr AND 0xFFFFFF) buff len s = pageProgram dev addr buff len s \<and>
     sectorErase dev (addr AND 0xFFFFFF) s = sectorErase dev addr s \<and>
     block32Erase dev (addr AND 0xFFFFFF) s = block32Erase dev addr s \<and>
     block64Erase dev (addr AND 0xFFFFFF) s = block64Erase dev addr s \<and>
     readSFDPRegister dev (addr AND 0xFFFFFF) buff len s = readSFDPRegister dev addr buff len s \<and>
     eraseSecurityRegister dev (addr AND 0xFFFFFF) s = eraseSecurityRegister dev addr s \<and>
     programSecurityRegister dev (addr AND 0xFFFFFF) buff len s =
       programSecurityRegister dev addr buff len s \<and>
     readSecurityRegister dev (addr AND 0xFFFFFF) buff len s =
       readSecurityRegister dev addr buff len s"
proof -
  have mask: "addr AND 0xFFFFFF = take_bit 24 addr"
    by (simp add: take_bit_eq_mask mask_eq_exp_minus_1)
  have frames:
    "snd (snd (readData dev addr buff len s)) =
       transact dev [read_data_spi_settings]
         (W25Q64_READ_DATA # address_bytes addr @ replicate (unat len) 0) (snd (busy dev s))"
    "snd (snd (fastRead dev addr buff len s)) =
       transact dev []
         (W25Q64_FAST_READ # address_bytes addr @ 0 # replicate (unat len) 0)
         (snd (busy dev s))"
    "snd (pageProgram dev addr buff len s) =
       transact dev []
         (W25Q64_PAGE_PROGRAM # address_bytes addr @ map buff [0..<unat len])
         (snd (busy dev s))"
    "snd (sectorErase dev addr s) =
       transact dev [] (W25Q64_SECTOR_ERASE # address_bytes addr) (snd (busy dev s))"
    "snd (block32Erase dev addr s) =
       transact dev [] (W25Q64_BLOCK_32_ERASE # address_bytes addr) (snd (busy dev s))"
    "snd (block64Erase dev addr s) =
       transact dev [] (W25Q64_BLOCK_64_ERASE # address_bytes addr) (snd (busy dev s))"
    "snd (snd (readSFDPRegister dev addr buff len s)) =
       transact dev []
         (W25Q64_READ_SFDP_REGISTER # address_bytes addr @ 0 # replicate (unat len) 0)
         (snd (busy dev s))"
    "snd (eraseSecurityRegister dev addr s) =
       transact dev [] (W25Q64_ERASE_SECURITY_REGISTER # address_bytes addr)
         (snd (busy dev s))"
    "snd (programSecurityRegister dev addr buff len s) =
       transact dev []
         (W25Q64_PROGRAM_SECURITY_REGISTER # address_bytes addr @ map buff [0..<unat len])
         (snd (busy dev s))"
    "snd (snd (readSecurityRegister dev addr buff len s)) =
       transact dev []
         (W25Q64_READ_SECURITY_REGISTER # address_bytes addr @ 0 # replicate (unat len) 0)
         (snd (busy dev s))"
    using assms
    by (simp_all add: readData_frame fastRead_frame pageProgram_frame sectorErase_frame
        block32Erase_frame block64Erase_frame readSFDPRegister_frame
        eraseSecurityRegister_frame programSecurityRegister_frame readSecurityRegister_frame)
  have upper:
    "readData dev (addr AND 0xFFFFFF) buff len s = readData dev addr buff len s"
    "fastRead dev (addr AND 0xFFFFFF) buff len s = fastRead dev addr buff len s"
    "pageProgram dev (addr AND 0xFFFFFF) buff len s = pageProgram dev addr buff len s"
    "sectorErase dev (addr AND 0xFFFFFF) s = sectorErase dev addr s"
    "block32Erase dev (addr AND 0xFFFFFF) s = block32Erase dev addr s"
    "block64Erase dev (addr AND 0xFFFFFF) s = block64Erase dev addr s"
    "readSFDPRegister dev (addr AND 0xFFFFFF) buff len s = readSFDPRegister dev addr buff len s"
    "eraseSecurityRegister dev (addr AND 0xFFFFFF) s = eraseSecurityRegister dev addr s"
    "programSecurityRegister dev (addr AND 0xFFFFFF) buff len s =
       programSecurityRegister dev addr buff len s"
    "readSecurityRegister dev (addr AND 0xFFFFFF) buff len s =
       readSecurityRegister dev addr buff len s"
    unfolding mask
    by (simp_all only: readData_def fastRead_def pageProgram_def sectorErase_def
        block32Erase_def block64Erase_def readSFDPRegister_def eraseSecurityRegister_def
        programSecurityRegister_def readSecurityRegister_def send_address_take_bit)
  show ?thesis
    using frames upper
    by (simp only: length_address_bytes big_endian_address_bytes mask
        address_bytes_code [symmetric])
qed

theorem addressed_operations_frame_witness:
  "\<not> fst (busy quiet_device boot_system) \<and>
   address_bytes 0x12ABCDEF = [0xAB, 0xCD, 0xEF] \<and>
   sent (emitted boot_system
     (snd (pageProgram quiet_device 0x12ABCDEF sample_buffer 2 boot_system))) =
     [W25Q64_READ_STATUS_REGISTER_1, 0, W25Q64_PAGE_PROGRAM, 0xAB, 0xCD, 0xEF, 0xAA, 0xBB]"
proof -
  have h: "\<not> fst (busy quiet_device boot_system)"
    by simp
  have a: "address_bytes 0x12ABCDEF = [0xAB, 0xCD, 0xEF]"
    by (simp add: address_bytes_code drop_bit_eq_div)
  have two: "[0..<2] = [0, 1 :: nat]"
    by (simp add: upt_rec)
  from addressed_operations_frame [OF h, where addr = "0x12ABCDEF" and buff = sample_buffer
      and len = 2]
  have "snd (pageProgram quiet_device 0x12ABCDEF sample_buffer 2 boot_system) =
       transact quiet_device []
         (W25Q64_PAGE_PROGRAM # address_bytes 0x12ABCDEF @ map sample_buffer [0..<unat (2 :: 32 word)])
         (snd (busy quiet_device boot_system))"
    by blast
  then show ?thesis
    using h a by (simp add: busy_state two sample_buffer_def emitted_def bus_transact)
qed

section \<open>The clock of \<^verbatim>\<open>readData\<close>\<close>

text \<open>
  The settings \<^verbatim>\<open>readData\<close> builds for its transaction are the default settings: the
  two speed constants of the header have the same value.
\<close>

lemma read_data_settings_equal_default: "read_data_spi_settings = default_spi_settings"
  by (simp add: read_data_spi_settings_def default_spi_settings_def
      W25Q64_READ_DATA_SPI_SPEED_def W25Q64_SPI_SPEED_def)

text \<open>
  Claim C6 says that \<^verbatim>\<open>readData\<close> runs its transaction at a clock rate lower than the
  default, as the comments of the header and of \<^verbatim>\<open>readData\<close> do. It fails: on a handle
  with the default settings, chip select on pin 10 and a device that is not busy,
  \<^verbatim>\<open>readData\<close> of two bytes at \<open>0x000100\<close> opens the bus with the default settings,
  opens it again with settings of its own, and transfers its six bytes under these; their
  clock is 50000000, and so is the default clock.
\<close>

theorem readData_clock_not_lower:
  "\<not> fst (busy quiet_device boot_system) \<and>
   spi_settings (chip boot_system) = default_spi_settings \<and>
   emitted (snd (busy quiet_device boot_system))
     (snd (snd (readData quiet_device 0x000100 blank_buffer 2 boot_system))) =
     [DigitalWrite 10 LOW,
      BeginTransaction default_spi_settings, BeginTransaction read_data_spi_settings,
      Transfer W25Q64_READ_DATA 0, Transfer 0x00 0, Transfer 0x01 0, Transfer 0x00 0,
      Transfer 0 0, Transfer 0 0,
      DigitalWrite 10 HIGH, EndTransaction] \<and>
   clocked None (emitted (snd (busy quiet_device boot_system))
     (snd (snd (readData quiet_device 0x000100 blank_buffer 2 boot_system)))) =
     [(Some read_data_spi_settings, W25Q64_READ_DATA),
      (Some read_data_spi_settings, 0x00), (Some read_data_spi_settings, 0x01),
      (Some read_data_spi_settings, 0x00),
      (Some read_data_spi_settings, 0), (Some read_data_spi_settings, 0)] \<and>
   clock read_data_spi_settings = 50000000 \<and>
   clock default_spi_settings = 50000000 \<and>
   \<not> clock read_data_spi_settings < clock default_spi_settings"
proof -
  have ev: "emitted (snd (busy quiet_device boot_system))
     (snd (snd (readData quiet_device 0x000100 blank_buffer 2 boot_system))) =
     [DigitalWrite 10 LOW,
      BeginTransaction default_spi_settings, BeginTransaction read_data_spi_settings,
      Transfer W25Q64_READ_DATA 0, Transfer 0x00 0, Transfer 0x01 0, Transfer 0x00 0,
      Transfer 0 0, Transfer 0 0,
      DigitalWrite 10 HIGH, EndTransaction]"
    by (simp add: readData_frame address_bytes_0x000100 replicate_2 transaction_def
        quiet_device_def)
       (simp add: boot_system_def)
  show ?thesis
    unfolding ev
    by (simp add: boot_system_def read_data_spi_settings_def default_spi_settings_def
        W25Q64_READ_DATA_SPI_SPEED_def W25Q64_SPI_SPEED_def)
qed

section \<open>Reset\<close>

text \<open>
  Claim C7. \<^verbatim>\<open>reset\<close> starts with the status read of the busy check. When the flag is
  set it returns \<^verbatim>\<open>BUSY\<close> and nothing but the two bytes of the status read has been sent.
  When the flag is clear it returns \<^verbatim>\<open>OK\<close> after two more transactions, the first sending
  the enable-reset opcode \<open>0x66\<close> and the second, with no event in between, the
  reset-device opcode \<open>0x99\<close>.
\<close>

theorem reset_sequence:
  "(fst (busy dev s) \<longrightarrow>
      reset dev s = (W25Q64_BUSY, snd (busy dev s)) \<and>
      sent (emitted s (snd (reset dev s))) = [W25Q64_READ_STATUS_REGISTER_1, 0]) \<and>
   (\<not> fst (busy dev s) \<longrightarrow>
      fst (reset dev s) = W25Q64_OK \<and>
      chip (snd (reset dev s)) = chip s \<and>
      (\<exists>r1 r2. bus (snd (reset dev s)) = bus (snd (busy dev s)) @
         [DigitalWrite (cs_pin (chip s)) LOW, BeginTransaction (spi_settings (chip s)),
          Transfer W25Q64_ENABLE_RESET r1,
          DigitalWrite (cs_pin (chip s)) HIGH, EndTransaction,
          DigitalWrite (cs_pin (chip s)) LOW, BeginTransaction (spi_settings (chip s)),
          Transfer W25Q64_RESET_DEVICE r2,
          DigitalWrite (cs_pin (chip s)) HIGH, EndTransaction]) \<and>
      sent (emitted s (snd (reset dev s))) =
        [W25Q64_READ_STATUS_REGISTER_1, 0, W25Q64_ENABLE_RESET, W25Q64_RESET_DEVICE])"
proof -
  have sent_busy: "fst (busy dev s) \<Longrightarrow>
      sent (emitted s (snd (reset dev s))) = [W25Q64_READ_STATUS_REGISTER_1, 0]"
    by (simp add: reset_frame busy_state)
  have sent_idle: "\<not> fst (busy dev s) \<Longrightarrow>
      sent (emitted s (snd (reset dev s))) =
        [W25Q64_READ_STATUS_REGISTER_1, 0, W25Q64_ENABLE_RESET, W25Q64_RESET_DEVICE]"
    by (simp add: reset_frame busy_state emitted_def bus_transact)
  have events: "\<not> fst (busy dev s) \<Longrightarrow>
      \<exists>r1 r2. bus (snd (reset dev s)) = bus (snd (busy dev s)) @
         [DigitalWrite (cs_pin (chip s)) LOW, BeginTransaction (spi_settings (chip s)),
          Transfer W25Q64_ENABLE_RESET r1,
          DigitalWrite (cs_pin (chip s)) HIGH, EndTransaction,
          DigitalWrite (cs_pin (chip s)) LOW, BeginTransaction (spi_settings (chip s)),
          Transfer W25Q64_RESET_DEVICE r2,
          DigitalWrite (cs_pin (chip s)) HIGH, EndTransaction]"
    by (simp add: reset_frame bus_transact transaction_def busy_state)
  show ?thesis
    using sent_busy sent_idle events by (simp add: reset_frame)
qed

theorem reset_sequence_witness:
  "fst (busy busy_device boot_system) \<and>
   reset busy_device boot_system = (W25Q64_BUSY, snd (busy busy_device boot_system)) \<and>
   \<not> fst (busy quiet_device boot_system) \<and>
   fst (reset quiet_device boot_system) = W25Q64_OK \<and>
   sent (emitted boot_system (snd (reset quiet_device boot_system))) =
     [W25Q64_READ_STATUS_REGISTER_1, 0, W25Q64_ENABLE_RESET, W25Q64_RESET_DEVICE]"
proof -
  have h1: "fst (busy busy_device boot_system)" and h2: "\<not> fst (busy quiet_device boot_system)"
    by simp_all
  from reset_sequence [of busy_device boot_system] reset_sequence [of quiet_device boot_system]
  show ?thesis
    using h1 h2 by blast
qed

section \<open>Transaction scope\<close>

lemma exchange_last:
  "outs \<noteq> [] \<Longrightarrow> \<exists>ys r. exchange dev tr outs = ys @ [Transfer (last outs) r]"
proof (induction outs arbitrary: tr)
  case Nil
  then show ?case by simp
next
  case (Cons out outs)
  show ?case
  proof (cases "outs = []")
    case True
    then show ?thesis by simp
  next
    case False
    from Cons.IH [OF False, of "tr @ [Transfer out (dev tr out)]"]
    obtain ys r where "exchange dev (tr @ [Transfer out (dev tr out)]) outs =
        ys @ [Transfer (last outs) r]"
      by blast
    with False show ?thesis
      by (simp add: exI [of _ "Transfer out (dev tr out) # ys"])
  qed
qed

lemma before_first_transaction:
  "before_first_transfer (transaction dev tr cs cfgs (out # outs) @ es) =
     DigitalWrite cs LOW # map BeginTransaction cfgs"
proof -
  have "takeWhile (\<lambda>e. \<not> is_transfer e) (map BeginTransaction cfgs @ Transfer a b # fs) =
      map BeginTransaction cfgs" for a b fs
    by (induction cfgs) simp_all
  then show ?thesis
    by (simp add: before_first_transfer_def transaction_def)
qed

lemma after_last_transaction:
  "after_last_transfer (es @ transaction dev tr cs cfgs (out # outs)) =
     [DigitalWrite cs HIGH, EndTransaction]"
proof -
  obtain ys r where
    "exchange dev (tr @ DigitalWrite cs LOW # map BeginTransaction cfgs) (out # outs) =
       ys @ [Transfer (last (out # outs)) r]"
    using exchange_last [of "out # outs"] by blast
  then show ?thesis
    by (simp add: after_last_transfer_def transaction_def del: exchange.simps)
qed

lemma bracketed_transactions:
  "bracketed (transaction dev tr cs cfgs (out # outs))"
  "bracketed (transaction dev tr cs cfgs (out # outs) @
     transaction dev tr' cs' cfgs' (out' # outs'))"
  "bracketed (transaction dev tr cs cfgs (out # outs) @
     transaction dev tr' cs' cfgs' (out' # outs') @
     transaction dev tr'' cs'' cfgs'' (out'' # outs''))"
  "bracketed ([PinMode pin m, DigitalWrite pin HIGH, SpiBegin] @
     transaction dev tr cs cfgs (out # outs))"
proof -
  show "bracketed (transaction dev tr cs cfgs (out # outs))"
    using before_first_transaction [of dev tr cs cfgs out outs "[]"]
      after_last_transaction [of "[]" dev tr cs cfgs out outs]
    by (simp add: bracketed_def scoped_transaction_end select_calls_def release_calls_def
        filter_map comp_def del: exchange.simps)
  show "bracketed (transaction dev tr cs cfgs (out # outs) @
     transaction dev tr' cs' cfgs' (out' # outs'))"
    using after_last_transaction [of "transaction dev tr cs cfgs (out # outs)"
        dev tr' cs' cfgs' out' outs']
    by (simp add: bracketed_def before_first_transaction scoped_transaction
        scoped_transaction_end select_calls_def release_calls_def filter_map comp_def
        del: exchange.simps)
  show "bracketed (transaction dev tr cs cfgs (out # outs) @
     transaction dev tr' cs' cfgs' (out' # outs') @
     transaction dev tr'' cs'' cfgs'' (out'' # outs''))"
    using after_last_transaction [of "transaction dev tr cs cfgs (out # outs) @
        transaction dev tr' cs' cfgs' (out' # outs')" dev tr'' cs'' cfgs'' out'' outs'']
    by (simp add: bracketed_def before_first_transaction scoped_transaction
        scoped_transaction_end select_calls_def release_calls_def filter_map comp_def
        del: exchange.simps)
  show "bracketed ([PinMode pin m, DigitalWrite pin HIGH, SpiBegin] @
     transaction dev tr cs cfgs (out # outs))"
    using after_last_transaction [of "[PinMode pin m, DigitalWrite pin HIGH, SpiBegin]"
        dev tr cs cfgs out outs]
      before_first_transaction [of dev tr cs cfgs out outs "[]"]
    by (simp add: bracketed_def before_first_transfer_def scoped_transaction_end
        select_calls_def release_calls_def filter_map comp_def del: exchange.simps)
qed

text \<open>
  Every operation other than \<^verbatim>\<open>readUniqueId\<close>, \<^verbatim>\<open>busy\<close> and \<^verbatim>\<open>init\<close> included,
  keeps the discipline on every path, the \<^verbatim>\<open>BUSY\<close> return too: one \<^verbatim>\<open>_select\<close> before
  the first transfer, one \<^verbatim>\<open>_release\<close> after the last, and no transfer outside a
  select/release pair.
\<close>

lemma init_bus:
  "bus (snd (init dev pin s)) =
     bus s @ [PinMode pin OUTPUT, DigitalWrite pin HIGH, SpiBegin] @
     transaction dev (bus s @ [PinMode pin OUTPUT, DigitalWrite pin HIGH, SpiBegin]) pin
       [spi_settings (chip s)] [W25Q64_MANUFACTURER_ID, 0, 0, 0, 0, 0]"
  by (simp add: init_def Let_def case_prod_beta readManufacturerId_frame bus_transact
      pinMode_def digitalWrite_def SPI_begin_def emit_def)

lemma other_operations_bracketed:
  "bracketed (emitted s (snd (init dev pin s)))"
  "bracketed (emitted s (snd (busy dev s)))"
  "bracketed (emitted s (snd (reset dev s)))"
  "bracketed (emitted s (snd (writeEnable dev s)))"
  "bracketed (emitted s (snd (volatileWriteEnable dev s)))"
  "bracketed (emitted s (snd (writeDisable dev s)))"
  "bracketed (emitted s (snd (releasePowerDown dev s)))"
  "bracketed (emitted s (snd (snd (snd (readManufacturerId dev s)))))"
  "bracketed (emitted s (snd (snd (snd (snd (readJedecId dev s))))))"
  "bracketed (emitted s (snd (snd (readData dev addr buff len s))))"
  "bracketed (emitted s (snd (snd (fastRead dev addr buff len s))))"
  "bracketed (emitted s (snd (pageProgram dev addr buff len s)))"
  "bracketed (emitted s (snd (sectorErase dev addr s)))"
  "bracketed (emitted s (snd (block32Erase dev addr s)))"
  "bracketed (emitted s (snd (block64Erase dev addr s)))"
  "bracketed (emitted s (snd (chipErase dev s)))"
  "bracketed (emitted s (snd (snd (readStatusRegister1 dev s))))"
  "bracketed (emitted s (snd (writeStatusRegister1 dev reg s)))"
  "bracketed (emitted s (snd (snd (readStatusRegister2 dev s))))"
  "bracketed (emitted s (snd (writeStatusRegister2 dev reg s)))"
  "bracketed (emitted s (snd (snd (readStatusRegister3 dev s))))"
  "bracketed (emitted s (snd (writeStatusRegister3 dev reg s)))"
  "bracketed (emitted s (snd (snd (readSFDPRegister dev addr buff len s))))"
  "bracketed (emitted s (snd (eraseSecurityRegister dev addr s)))"
  "bracketed (emitted s (snd (programSecurityRegister dev addr buff len s)))"
  "bracketed (emitted s (snd (snd (readSecurityRegister dev addr buff len s))))"
  "bracketed (emitted s (snd (eraseProgramSuspend dev s)))"
  "bracketed (emitted s (snd (eraseProgramResume dev s)))"
  "bracketed (emitted s (snd (powerDown dev s)))"
  "bracketed (emitted s (snd (enableReset dev s)))"
  "bracketed (emitted s (snd (resetDevice dev s)))"
proof -
  show "bracketed (emitted s (snd (init dev pin s)))"
    using bracketed_transactions(4) [of pin OUTPUT]
    by (simp add: emitted_def init_bus)
  show "bracketed (emitted s (snd (reset dev s)))"
    by (simp add: reset_frame busy_state emitted_transact_after bracketed_transactions)
qed (simp_all add: writeEnable_frame volatileWriteEnable_frame writeDisable_frame
      releasePowerDown_frame eraseProgramSuspend_frame eraseProgramResume_frame powerDown_frame
      enableReset_frame resetDevice_frame readStatusRegister1_frame readStatusRegister2_frame
      readStatusRegister3_frame readManufacturerId_frame readJedecId_frame busy_state
      readData_frame fastRead_frame pageProgram_frame sectorErase_frame block32Erase_frame
      block64Erase_frame chipErase_frame writeStatusRegister1_frame writeStatusRegister2_frame
      writeStatusRegister3_frame readSFDPRegister_frame eraseSecurityRegister_frame
      programSecurityRegister_frame readSecurityRegister_frame
      emitted_transact_after bracketed_transactions)

text \<open>
  \<^verbatim>\<open>readUniqueId\<close> does not keep it. For every device and every start state it selects
  the chip once, sends thirteen bytes and returns with the chip still selected and the
  transaction open: no event follows its last transfer.
\<close>

lemma readUniqueId_unreleased:
  "sent (emitted s (snd (snd (readUniqueId dev unique_id s)))) =
     W25Q64_READ_UNIQUE_ID # replicate 12 0"
  "select_calls (emitted s (snd (snd (readUniqueId dev unique_id s)))) = 1"
  "release_calls (emitted s (snd (snd (readUniqueId dev unique_id s)))) = 0"
  "scoped False (emitted s (snd (snd (readUniqueId dev unique_id s)))) = Some True"
proof -
  show "sent (emitted s (snd (snd (readUniqueId dev unique_id s)))) =
     W25Q64_READ_UNIQUE_ID # replicate 12 0"
    by (simp add: emitted_def readUniqueId_frame flip: replicate_add)
  show "select_calls (emitted s (snd (snd (readUniqueId dev unique_id s)))) = 1"
    by (simp add: emitted_def readUniqueId_frame select_calls_def)
  show "release_calls (emitted s (snd (snd (readUniqueId dev unique_id s)))) = 0"
    by (simp add: emitted_def readUniqueId_frame release_calls_def)
  show "scoped False (emitted s (snd (snd (readUniqueId dev unique_id s)))) = Some True"
    by (simp add: emitted_def readUniqueId_frame)
qed

lemma readUniqueId_not_bracketed:
  "after_last_transfer (emitted s (snd (snd (readUniqueId dev unique_id s)))) = []"
  "\<not> bracketed (emitted s (snd (snd (readUniqueId dev unique_id s))))"
proof -
  obtain ys r where
    "exchange dev
       (bus s @ [DigitalWrite (cs_pin (chip s)) LOW, BeginTransaction (spi_settings (chip s))])
       (W25Q64_READ_UNIQUE_ID # replicate 4 0 @ replicate 8 0) =
     ys @ [Transfer (last (W25Q64_READ_UNIQUE_ID # replicate 4 0 @ replicate 8 0)) r]"
    using exchange_last [of "W25Q64_READ_UNIQUE_ID # replicate 4 0 @ replicate 8 0"] by blast
  then show
    "after_last_transfer (emitted s (snd (snd (readUniqueId dev unique_id s)))) = []"
    by (simp add: emitted_def readUniqueId_frame after_last_transfer_def del: exchange.simps)
  then show "\<not> bracketed (emitted s (snd (snd (readUniqueId dev unique_id s))))"
    by (simp add: bracketed_def release_calls_def)
qed

text \<open>
  Claim C3 says that every operation that transfers bytes calls \<^verbatim>\<open>_select\<close> once before
  its first transfer and \<^verbatim>\<open>_release\<close> once after its last, on every path. It fails for
  \<^verbatim>\<open>readUniqueId\<close>, here on a handle with chip select on pin 10 and a device that
  answers zero: the trace ends with a transfer, there is no \<^verbatim>\<open>SPI.endTransaction\<close> and no
  write of \<open>HIGH\<close> to the pin, and the call still returns \<^verbatim>\<open>OK\<close>.
\<close>

theorem readUniqueId_missing_release:
  "emitted boot_system (snd (snd (readUniqueId quiet_device blank_buffer boot_system))) =
     [DigitalWrite 10 LOW, BeginTransaction default_spi_settings,
      Transfer W25Q64_READ_UNIQUE_ID 0,
      Transfer 0 0, Transfer 0 0, Transfer 0 0, Transfer 0 0,
      Transfer 0 0, Transfer 0 0, Transfer 0 0, Transfer 0 0,
      Transfer 0 0, Transfer 0 0, Transfer 0 0, Transfer 0 0] \<and>
   after_last_transfer
     (emitted boot_system (snd (snd (readUniqueId quiet_device blank_buffer boot_system)))) =
     [] \<and>
   release_calls
     (emitted boot_system (snd (snd (readUniqueId quiet_device blank_buffer boot_system)))) = 0 \<and>
   scoped False
     (emitted boot_system (snd (snd (readUniqueId quiet_device blank_buffer boot_system)))) =
     Some True \<and>
   \<not> bracketed
     (emitted boot_system (snd (snd (readUniqueId quiet_device blank_buffer boot_system)))) \<and>
   fst (readUniqueId quiet_device blank_buffer boot_system) = W25Q64_OK"
proof -
  have four: "replicate 4 (0 :: byte) = [0, 0, 0, 0]"
    and eight: "replicate 8 (0 :: byte) = [0, 0, 0, 0, 0, 0, 0, 0]"
    by (simp_all add: numeral_eq_Suc)
  have "emitted boot_system (snd (snd (readUniqueId quiet_device blank_buffer boot_system))) =
     [DigitalWrite 10 LOW, BeginTransaction default_spi_settings,
      Transfer W25Q64_READ_UNIQUE_ID 0,
      Transfer 0 0, Transfer 0 0, Transfer 0 0, Transfer 0 0,
      Transfer 0 0, Transfer 0 0, Transfer 0 0, Transfer 0 0,
      Transfer 0 0, Transfer 0 0, Transfer 0 0, Transfer 0 0]"
    by (simp add: emitted_def readUniqueId_frame quiet_device_def four eight)
       (simp add: boot_system_def)
  then show ?thesis
    by (simp add: release_calls_def after_last_transfer_def bracketed_def readUniqueId_frame)
qed

section \<open>What \<^verbatim>\<open>readData\<close> stores\<close>


section \<open>Program and read back on the modelled chip\<close>

text \<open>
  What one transaction does to the chip, and what the chip answers inside a read command.
\<close>

lemma flash_state_append:
  "flash_state mem0 (tr @ es) = foldl flash_step (flash_state mem0 tr) es"
  by (simp add: flash_state_def)









lemma never_busy_idle [simp]: "\<not> fst (busy (ideal_flash mem0 never_busy) s)"
  by (simp add: busy_def readStatusRegister1_def frame_simps ideal_flash_def flash_state_append
      flash_answer_def never_busy_def)






end
